theory Spec2Isabelle
  imports Complex_Main
begin

section \<open>ArtPop imaging pipeline: \<^verbatim>\<open>artpop/image/imager.py\<close>\<close>

text \<open>
  Numbers. Python floats and numpy float arrays are modelled by \<^typ>\<open>real\<close> and lists of
  reals: rounding, overflow and underflow are not modelled, so \<^verbatim>\<open>10**x\<close> is
  \<^term>\<open>10 powr x\<close> and \<^verbatim>\<open>np.log10\<close> is \<^term>\<open>log 10\<close>. Where numpy would go on
  with \<^verbatim>\<open>inf\<close> or \<^verbatim>\<open>nan\<close> (a division of an array or of a numpy scalar by zero,
  a square root of a negative number, a logarithm of a non-positive number) the reals
  have no value to offer; the model then stops with \<open>NonFinite\<close>, which is the one
  constructor of \<open>error\<close> that is not a Python exception, and does not follow the run
  any further.

  A 2-D array is a list of rows; every array built below is rectangular with at least
  one row and one column.
\<close>

datatype error =
    NotASource                \<comment> \<open>\<^verbatim>\<open>_check_source\<close>: "is not a valid Source object"\<close>
  | FilterNotProvided string  \<comment> \<open>\<^verbatim>\<open>_check_bandpass\<close>: "filter properties were not provided"\<close>
  | KeyError string           \<comment> \<open>a dictionary has no such key\<close>
  | AttributeError string     \<comment> \<open>an object has no such attribute\<close>
  | TypeError                 \<comment> \<open>subscript of \<^verbatim>\<open>None\<close>, \<^verbatim>\<open>float()\<close> of an array of several elements\<close>
  | IndexError                \<comment> \<open>a boolean mask of the wrong length\<close>
  | ValueError string         \<comment> \<open>raised by \<^verbatim>\<open>histogram2d\<close> and by the random generator\<close>
  | KernelError               \<comment> \<open>\<^verbatim>\<open>convolve_fft\<close>: the kernel cannot be normalized\<close>
  | NotImplementedError       \<comment> \<open>\<^verbatim>\<open>convolve_fft\<close>: boundary \<^verbatim>\<open>'extend'\<close>\<close>
  | BroadcastError            \<comment> \<open>operands could not be broadcast together\<close>
  | ZeroDivisionError         \<comment> \<open>division of a Python float by zero\<close>
  | AssertionError            \<comment> \<open>a failed \<^verbatim>\<open>assert\<close>\<close>
  | ConfigError string        \<comment> \<open>\<^verbatim>\<open>__init__\<close>: an argument is not as required\<close>
  | NonFinite                 \<comment> \<open>numpy continues with inf or nan (not an exception)\<close>

type_synonym image = "real list list"
type_synonym dict = "(string \<times> real) list"

definition getitem :: "dict \<Rightarrow> string \<Rightarrow> error + real" where
  \<comment> \<open>\<^verbatim>\<open>d[key]\<close>\<close>
  "getitem d k = (case map_of d k of None \<Rightarrow> Inl (KeyError k) | Some v \<Rightarrow> Inr v)"

definition keys :: "dict \<Rightarrow> string list" where
  "keys d = remdups (map fst d)"

subsection \<open>Quantities: \<^verbatim>\<open>check_units\<close> of \<^verbatim>\<open>util.py\<close>\<close>

text \<open>
  An exposure time is given as a bare float or as a quantity with a unit of time. (A
  quantity carrying a unit that is not a time makes astropy's \<^verbatim>\<open>.to('s')\<close> raise; such
  arguments are outside this type.) Wavelengths, the aperture diameter and the pixel
  scale are kept as reals in the unit the constructor gives them: angstrom, metre and
  arcsec per pixel.
\<close>

datatype time_unit = Second | Minute | Hour

datatype quantity = Bare real | Quantity real time_unit

fun seconds_per :: "time_unit \<Rightarrow> real" where
  "seconds_per Second = 1"
| "seconds_per Minute = 60"
| "seconds_per Hour = 3600"

fun check_units :: "quantity \<Rightarrow> time_unit \<Rightarrow> quantity" where
  "check_units (Quantity v u) default_unit = Quantity v u"
| "check_units (Bare v) default_unit = Quantity v default_unit"

fun to_s_value :: "quantity \<Rightarrow> error + real" where
  \<comment> \<open>\<^verbatim>\<open>exptime.to('s').value\<close>; a bare float has no method \<^verbatim>\<open>to\<close>\<close>
  "to_s_value (Quantity v u) = Inr (v * seconds_per u)"
| "to_s_value (Bare v) = Inl (AttributeError ''to'')"

subsection \<open>The artificial imager's state\<close>

text \<open>
  The random generator is numpy's \<^verbatim>\<open>RandomState\<close>; it is a parameter of the model. A
  generator state \<open>'g\<close> comes with the two draws the pipeline uses, each returning one
  sample and the next state: \<open>poisson_draw g lam\<close>, called with \<open>0 \<le> lam\<close> only, and
  \<open>normal_draw g loc scale\<close>, called with \<open>0 \<le> scale\<close> only. \<open>win32\<close> is the value of
  \<^verbatim>\<open>sys.platform == 'win32'\<close>.
\<close>

record 'g platform =
  poisson_draw :: "'g \<Rightarrow> real \<Rightarrow> nat \<times> 'g"
  normal_draw :: "'g \<Rightarrow> real \<Rightarrow> real \<Rightarrow> real \<times> 'g"
  win32 :: bool

record 'g art_imager =
  efficiency :: dict
  transparency :: real
  read_noise :: real
  gain :: real
  diameter :: real
  rng :: 'g
  dlam :: "dict option"
  lam_eff :: "dict option"
  filters :: "string list"
  zpt_inst :: "dict option"

datatype efficiency_arg = EffFloat real | EffDict dict | EffOther

text \<open>
  \<^verbatim>\<open>ArtImager.__init__\<close> for calls that leave \<^verbatim>\<open>phot_system\<close> and \<^verbatim>\<open>filter_system\<close> at
  \<^verbatim>\<open>None\<close>: the branches for these two read the filter registry and speclite. The
  registry's \<^verbatim>\<open>get_filter_names(None)\<close> is the parameter \<open>registry\<close>. The seed has
  already been turned into a generator state \<open>g\<close> (\<^verbatim>\<open>check_random_state\<close>).
\<close>

definition ArtImager_init ::
  "string list \<Rightarrow> real \<Rightarrow> real \<Rightarrow> real option \<Rightarrow> efficiency_arg \<Rightarrow> real \<Rightarrow>
   dict option \<Rightarrow> dict option \<Rightarrow> dict option \<Rightarrow> 'g \<Rightarrow> error + 'g art_imager" where
  "ArtImager_init registry diameter_arg read_noise_arg gain_arg efficiency_arg transparency_arg
     dlam_arg lam_eff_arg zpt_inst_arg g =
   (case (case efficiency_arg of
            EffFloat e \<Rightarrow> Inr (map (\<lambda>filt. (filt, e)) registry)
          | EffDict d \<Rightarrow> Inr d
          | EffOther \<Rightarrow> Inl (ConfigError ''efficiency must be a float or a dictionary'')) of
      Inl e \<Rightarrow> Inl e
    | Inr eff \<Rightarrow>
       (let self = \<lparr> efficiency = eff, transparency = transparency_arg,
                     read_noise = read_noise_arg,
                     gain = (case gain_arg of None \<Rightarrow> 1 | Some gn \<Rightarrow> gn),
                     diameter = diameter_arg, rng = g,
                     dlam = None, lam_eff = None, filters = [], zpt_inst = None \<rparr>
        in case zpt_inst_arg of
             Some z \<Rightarrow> Inr (self \<lparr> filters := keys z, zpt_inst := Some z \<rparr>)
           | None \<Rightarrow>
              (case dlam_arg of
                 Some dl \<Rightarrow>
                   (case lam_eff_arg of
                      None \<Rightarrow> Inl AssertionError
                    | Some le \<Rightarrow>
                       (if set (keys dl) \<subseteq> set (keys le)
                        then Inr (self \<lparr> filters := keys dl, dlam := Some dl, lam_eff := Some le \<rparr>)
                        else Inl (KeyError (hd (filter (\<lambda>k. k \<notin> set (keys le)) (keys dl))))))
               | None \<Rightarrow>
                   Inl (ConfigError ''must give phot_system or (dlam, lam_eff) or filter_system''))))"

subsection \<open>Photometric conversion\<close>

definition mAB_0 :: real where
  "mAB_0 = 48.6"

definition fnu_from_AB_mag :: "real \<Rightarrow> real" where
  \<comment> \<open>flux density in erg / s / Hz / cm2\<close>
  "fnu_from_AB_mag mag = 10 powr ((mag + mAB_0) / (- 2.5))"

definition planck_h :: real where
  \<comment> \<open>\<^verbatim>\<open>astropy.constants.h\<close> in erg s\<close>
  "planck_h = 6.62607015 / 10 ^ 27"

definition speed_c :: real where
  \<comment> \<open>\<^verbatim>\<open>astropy.constants.c\<close> in angstrom / s\<close>
  "speed_c = 299792458 * 10 ^ 10"

definition area :: "'g art_imager \<Rightarrow> real" where
  \<comment> \<open>area of the aperture, in square metres\<close>
  "area self = pi * (diameter self / 2) ^ 2"

definition area_cm2 :: "'g art_imager \<Rightarrow> real" where
  \<comment> \<open>\<^verbatim>\<open>self.area.to('cm2')\<close>\<close>
  "area_cm2 self = area self * 10 ^ 4"

definition subscript :: "dict option \<Rightarrow> string \<Rightarrow> error + real" where
  \<comment> \<open>\<^verbatim>\<open>self.dlam[bandpass]\<close> where the attribute may be \<^verbatim>\<open>None\<close>\<close>
  "subscript d k = (case d of None \<Rightarrow> Inl TypeError | Some m \<Rightarrow> getitem m k)"

definition mag_to_counts ::
  "'g art_imager \<Rightarrow> real list \<Rightarrow> string \<Rightarrow> quantity \<Rightarrow> error + real list" where
  "mag_to_counts self mags bandpass exptime_arg =
   (let exptime = check_units exptime_arg Second in
    case zpt_inst self of
      None \<Rightarrow>
        (case subscript (dlam self) bandpass of Inl e \<Rightarrow> Inl e | Inr dl \<Rightarrow>
         case subscript (lam_eff self) bandpass of Inl e \<Rightarrow> Inl e | Inr le \<Rightarrow>
         case to_s_value exptime of Inl e \<Rightarrow> Inl e | Inr t \<Rightarrow>
         case getitem (efficiency self) bandpass of Inl e \<Rightarrow> Inl e | Inr eff \<Rightarrow>
         if le = 0 \<or> gain self = 0 then Inl NonFinite
         else Inr (map (\<lambda>mag. (dl / le) * fnu_from_AB_mag mag / planck_h
                               * area_cm2 self * t
                               * (eff * transparency self) / gain self) mags))
    | Some z \<Rightarrow>
        (case getitem z bandpass of Inl e \<Rightarrow> Inl e | Inr zp \<Rightarrow>
         case to_s_value exptime of Inl e \<Rightarrow> Inl e | Inr t \<Rightarrow>
         Inr (map (\<lambda>mag. 10 powr (0.4 * (zp - mag)) * t) mags)))"

definition sb_to_counts_per_pixel ::
  "'g art_imager \<Rightarrow> real \<Rightarrow> string \<Rightarrow> quantity \<Rightarrow> real \<Rightarrow> error + real" where
  "sb_to_counts_per_pixel self sb bandpass exptime_arg pixscale =
   (let exptime = check_units exptime_arg Second in
    case zpt_inst self of
      None \<Rightarrow>
        (case subscript (dlam self) bandpass of Inl e \<Rightarrow> Inl e | Inr dl \<Rightarrow>
         case subscript (lam_eff self) bandpass of Inl e \<Rightarrow> Inl e | Inr le \<Rightarrow>
         case to_s_value exptime of Inl e \<Rightarrow> Inl e | Inr t \<Rightarrow>
         case getitem (efficiency self) bandpass of Inl e \<Rightarrow> Inl e | Inr eff \<Rightarrow>
         if le = 0 \<or> gain self = 0 then Inl NonFinite
         else
           let E_lam = planck_h * speed_c / le;
               flam_per_square_arcsec = fnu_from_AB_mag sb * speed_c / le ^ 2;
               flam_per_pixel = flam_per_square_arcsec * pixscale ^ 2
           in Inr (flam_per_pixel * dl / E_lam * t * area_cm2 self
                   * (eff * transparency self) / gain self))
    | Some z \<Rightarrow>
        (case getitem z bandpass of Inl e \<Rightarrow> Inl e | Inr zp \<Rightarrow>
         case to_s_value exptime of Inl e \<Rightarrow> Inl e | Inr t \<Rightarrow>
         Inr (10 powr (0.4 * (zp - sb)) * t)))"

definition calibration :: "'g art_imager \<Rightarrow> string \<Rightarrow> quantity \<Rightarrow> real \<Rightarrow> error + real" where
  "calibration self bandpass exptime zpt =
   (case zpt_inst self of
      None \<Rightarrow>
        (case subscript (dlam self) bandpass of Inl e \<Rightarrow> Inl e | Inr dl \<Rightarrow>
         case subscript (lam_eff self) bandpass of Inl e \<Rightarrow> Inl e | Inr le \<Rightarrow>
         case to_s_value exptime of Inl e \<Rightarrow> Inl e | Inr t \<Rightarrow>
         case getitem (efficiency self) bandpass of Inl e \<Rightarrow> Inl e | Inr eff \<Rightarrow>
         let lam_factor = dl / le / planck_h
         in if le = 0 \<or> lam_factor = 0 \<or> t = 0 \<or> area_cm2 self = 0
               \<or> eff * transparency self = 0
            then Inl NonFinite
            else Inr (10 powr (0.4 * zpt) * 10 powr (0.4 * mAB_0) / lam_factor
                      / t / area_cm2 self / (eff * transparency self) * gain self))
    | Some z \<Rightarrow>
        (case getitem z bandpass of Inl e \<Rightarrow> Inl e | Inr zp \<Rightarrow>
         case to_s_value exptime of Inl e \<Rightarrow> Inl e | Inr t \<Rightarrow>
         if t = 0 then Inl NonFinite
         else Inr (10 powr (0.4 * (zpt - zp)) / t)))"

subsection \<open>The source and the observations\<close>

text \<open>
  Modelled from the spec: the class \<^verbatim>\<open>Source\<close> of \<^verbatim>\<open>artpop/source\<close>, which is not among
  the files of this development. The spec gives it the arrays \<^verbatim>\<open>x\<close>, \<^verbatim>\<open>y\<close> (here
  \<open>star_x\<close>, \<open>star_y\<close>), the mapping \<^verbatim>\<open>mags\<close> from a bandpass to the stars' magnitudes,
  \<^verbatim>\<open>xy_dim\<close>, \<^verbatim>\<open>pixel_scale\<close>, an optional \<^verbatim>\<open>smooth_model\<close> (a callable profile with
  attributes that are set by name), an optional integrated-magnitude accessor
  (\<^verbatim>\<open>sp.mag_integrated_component\<close>) and the method \<^verbatim>\<open>mag_to_image_amplitude(mag, zpt)\<close>,
  which returns the surface brightness at the effective radius, the amplitude in image
  units and the name of the amplitude parameter.
\<close>

record smooth_profile =
  params :: "string \<rightharpoonup> real"
  profile :: "(string \<rightharpoonup> real) \<Rightarrow> real \<Rightarrow> real \<Rightarrow> real"

datatype smooth_attr =
    NoAttr                   \<comment> \<open>\<^verbatim>\<open>hasattr(source, 'smooth_model')\<close> is false\<close>
  | IsNone                   \<comment> \<open>\<^verbatim>\<open>source.smooth_model is None\<close>\<close>
  | Model smooth_profile

record source =
  star_x :: "real list"
  star_y :: "real list"
  mags :: "(string \<times> real list) list"
  xy_dim :: "int \<times> int"
  pixel_scale :: real
  smooth_model :: smooth_attr
  sp :: "(string \<Rightarrow> error + real) option"
  mag_to_image_amplitude :: "real \<Rightarrow> real \<Rightarrow> real \<times> real \<times> string"

text \<open>What a caller may pass as \<^verbatim>\<open>source\<close>: a \<^verbatim>\<open>Source\<close> or any other object.\<close>

datatype pyobject = SourceObject source | OtherObject

text \<open>
  \<^verbatim>\<open>IdealObservation\<close> and \<^verbatim>\<open>ArtObservation\<close>. The fields \<^verbatim>\<open>image\<close>, \<^verbatim>\<open>zpt\<close>, \<^verbatim>\<open>bandpass\<close>,
  \<^verbatim>\<open>calibration\<close> and \<^verbatim>\<open>exptime\<close> carry a prefix here, since both classes have them and
  the names are needed for the methods' arguments.
\<close>

record ideal_observation =
  ideal_image :: image
  ideal_zpt :: real
  ideal_bandpass :: string

record art_observation =
  raw_counts :: image
  src_counts :: image
  sky_counts :: real
  obs_image :: image
  var_image :: image
  obs_calibration :: real
  obs_zpt :: real
  obs_bandpass :: string
  obs_exptime :: quantity
  mag_error :: "real list option"

subsection \<open>Arrays\<close>

definition ncols :: "image \<Rightarrow> nat" where
  "ncols m = (case m of [] \<Rightarrow> 0 | r # _ \<Rightarrow> length r)"

definition shape :: "image \<Rightarrow> nat \<times> nat" where
  "shape m = (length m, ncols m)"

definition T :: "image \<Rightarrow> image" where
  \<comment> \<open>\<^verbatim>\<open>a.T\<close>\<close>
  "T m = map (\<lambda>j. map (\<lambda>r. r ! j) m) [0..<ncols m]"

definition tabulate :: "nat \<Rightarrow> nat \<Rightarrow> (nat \<Rightarrow> nat \<Rightarrow> real) \<Rightarrow> image" where
  \<comment> \<open>the array of the given shape whose entry at row \<open>i\<close>, column \<open>j\<close> is \<open>f i j\<close>\<close>
  "tabulate h w f = map (\<lambda>i. map (\<lambda>j. f i j) [0..<w]) [0..<h]"

definition mask_select :: "'a list \<Rightarrow> bool list \<Rightarrow> error + 'a list" where
  \<comment> \<open>\<^verbatim>\<open>a[mask]\<close> for a boolean mask\<close>
  "mask_select a m =
     (if length m \<noteq> length a then Inl IndexError
      else Inr (map fst (filter snd (zip a m))))"

definition py_slice :: "int \<Rightarrow> int \<Rightarrow> 'a list \<Rightarrow> 'a list" where
  \<comment> \<open>\<^verbatim>\<open>a[start:stop]\<close>: negative bounds count from the end, all bounds are clipped\<close>
  "py_slice start stop a =
     (let n = int (length a);
          lo = (if start < 0 then max (start + n) 0 else min start n);
          hi = (if stop < 0 then max (stop + n) 0 else min stop n)
      in drop (nat lo) (take (nat hi) a))"

definition iadd :: "image \<Rightarrow> image \<Rightarrow> error + image" where
  \<comment> \<open>\<^verbatim>\<open>dst += src\<close>: \<open>src\<close> is broadcast to the shape of \<open>dst\<close>, which is kept\<close>
  "iadd dst src =
     (let h = length src; w = ncols src in
      if (h = length dst \<or> h = 1) \<and> (w = ncols dst \<or> w = 1)
      then Inr (tabulate (length dst) (ncols dst)
                  (\<lambda>i j. dst ! i ! j + src ! (if h = 1 then 0 else i) ! (if w = 1 then 0 else j)))
      else Inl BroadcastError)"

definition clip_negative :: "image \<Rightarrow> image" where
  \<comment> \<open>\<^verbatim>\<open>a[a < 0] = 0\<close>\<close>
  "clip_negative a = map (map (\<lambda>v. if v < 0 then 0 else v)) a"

subsection \<open>The base class \<^verbatim>\<open>Imager\<close>\<close>

definition check_source :: "pyobject \<Rightarrow> error + source" where
  \<comment> \<open>\<^verbatim>\<open>_check_source\<close>\<close>
  "check_source obj = (case obj of SourceObject s \<Rightarrow> Inr s | OtherObject \<Rightarrow> Inl NotASource)"

definition check_bandpass :: "string list \<Rightarrow> string \<Rightarrow> error + unit" where
  \<comment> \<open>\<^verbatim>\<open>_check_bandpass\<close>, on \<^verbatim>\<open>self.filters\<close>\<close>
  "check_bandpass fs bandpass =
     (if bandpass \<notin> set fs then Inl (FilterNotProvided bandpass) else Inr ())"

text \<open>
  \<^verbatim>\<open>fast_histogram.histogram2d\<close>, a library function: \<open>nx\<close> by \<open>ny\<close> bins of equal width
  over the half-open ranges \<open>[xmin, xmax)\<close> and \<open>[ymin, ymax)\<close>. It refuses an empty
  range and a bin count that is not positive; a point is counted when
  \<open>xmin \<le> x < xmax\<close> and \<open>ymin \<le> y < ymax\<close> (the upper edge is excluded), in the bin
  whose index is the integer part of \<open>(x - xmin) * (nx / (xmax - xmin))\<close>. The three
  arrays have the same length here.
\<close>

definition bin_index :: "real \<Rightarrow> real \<Rightarrow> int \<Rightarrow> real \<Rightarrow> nat" where
  "bin_index lo hi n v = nat \<lfloor>(v - lo) * (real_of_int n / (hi - lo))\<rfloor>"

definition histogram2d ::
  "real list \<Rightarrow> real list \<Rightarrow> int \<times> int \<Rightarrow> real list \<Rightarrow> (real \<times> real) \<times> (real \<times> real) \<Rightarrow>
   error + image" where
  "histogram2d px py bins weights hist_range =
   (let nx = fst bins; ny = snd bins;
        xmin = fst (fst hist_range); xmax = snd (fst hist_range);
        ymin = fst (snd hist_range); ymax = snd (snd hist_range)
    in if xmax \<le> xmin then Inl (ValueError ''xmax should be greater than xmin'')
       else if ymax \<le> ymin then Inl (ValueError ''ymax should be greater than ymin'')
       else if nx \<le> 0 then Inl (ValueError ''nx should be strictly positive'')
       else if ny \<le> 0 then Inl (ValueError ''ny should be strictly positive'')
       else if length py \<noteq> length px \<or> length weights \<noteq> length px
       then Inl (ValueError ''shape mismatch'')
       else Inr (tabulate (nat nx) (nat ny)
              (\<lambda>ix iy. sum_list (map
                 (\<lambda>(tx, ty, tw).
                    if xmin \<le> tx \<and> tx < xmax \<and> ymin \<le> ty \<and> ty < ymax
                       \<and> bin_index xmin xmax nx tx = ix \<and> bin_index ymin ymax ny ty = iy
                    then tw else 0)
                 (zip px (zip py weights))))))"

definition inject_stars ::
  "real list \<Rightarrow> real list \<Rightarrow> real list \<Rightarrow> int \<times> int \<Rightarrow> bool list option \<Rightarrow> error + image" where
  "inject_stars px py signal dims msk =
   (let bins = dims;
        hist_range = ((0, real_of_int (fst bins) - 1), (0, real_of_int (snd bins) - 1))
    in case (case msk of
               Some m \<Rightarrow>
                 (case mask_select px m of Inl e \<Rightarrow> Inl e | Inr x' \<Rightarrow>
                  case mask_select py m of Inl e \<Rightarrow> Inl e | Inr y' \<Rightarrow>
                  case mask_select signal m of Inl e \<Rightarrow> Inl e | Inr s' \<Rightarrow> Inr (x', y', s'))
             | None \<Rightarrow> Inr (px, py, signal)) of
         Inl e \<Rightarrow> Inl e
       | Inr (x', y', s') \<Rightarrow>
           (case histogram2d x' y' bins s' hist_range of
              Inl e \<Rightarrow> Inl e
            | Inr h \<Rightarrow> Inr (T h)))"

text \<open>
  \<^verbatim>\<open>astropy.convolution.convolve_fft(image, psf, boundary=boundary, normalize_kernel=True)\<close>,
  a library function, as the sum it computes: the kernel is divided by its sum (refused
  when the sum is below 1/100), centred on its middle element, and the image is
  continued periodically (\<^verbatim>\<open>'wrap'\<close>) or by zeros (\<^verbatim>\<open>'fill'\<close>, and \<^verbatim>\<open>None\<close>); the result has
  the shape of the image. The values are those of a kernel that is no larger than the
  image; for a larger kernel only the shape is meant, and nothing below uses more.
\<close>

datatype boundary = Fill | Wrap | Extend | BoundaryNone

definition kernel_sum :: "image \<Rightarrow> real" where
  "kernel_sum k = sum_list (map sum_list k)"

definition pixel_at :: "boundary \<Rightarrow> image \<Rightarrow> int \<Rightarrow> int \<Rightarrow> real" where
  "pixel_at b img p q =
     (let h = int (length img); w = int (ncols img) in
      if b = Wrap then img ! nat (p mod h) ! nat (q mod w)
      else if 0 \<le> p \<and> p < h \<and> 0 \<le> q \<and> q < w then img ! nat p ! nat q else 0)"

definition convolve_fft :: "image \<Rightarrow> image \<Rightarrow> boundary \<Rightarrow> error + image" where
  "convolve_fft img k b =
     (if kernel_sum k < 1 / 100 then Inl KernelError
      else if b = Extend then Inl NotImplementedError
      else Inr (tabulate (length img) (ncols img)
             (\<lambda>i j. sum_list (map
                (\<lambda>(u, v). k ! u ! v / kernel_sum k
                           * pixel_at b img (int i + int (length k div 2) - int u)
                                            (int j + int (ncols k div 2) - int v))
                (List.product [0..<length k] [0..<ncols k])))))"

definition apply_seeing :: "image \<Rightarrow> image option \<Rightarrow> boundary \<Rightarrow> error + image" where
  "apply_seeing img psf b =
     (case psf of None \<Rightarrow> Inr img | Some k \<Rightarrow> convolve_fft img k b)"

definition evaluate :: "smooth_profile \<Rightarrow> nat \<times> nat \<Rightarrow> image" where
  \<comment> \<open>\<^verbatim>\<open>yy, xx = np.mgrid[:h, :w]; smooth_model(xx, yy)\<close>\<close>
  "evaluate m shp = tabulate (fst shp) (snd shp) (\<lambda>i j. profile m (params m) (real j) (real i))"

definition add_images :: "image \<Rightarrow> image \<Rightarrow> image" where
  \<comment> \<open>\<^verbatim>\<open>a + b\<close> for two arrays of the same shape\<close>
  "add_images a b = map2 (map2 (+)) a b"

definition set_attr :: "smooth_profile \<Rightarrow> string \<Rightarrow> real \<Rightarrow> smooth_profile" where
  \<comment> \<open>\<^verbatim>\<open>setattr(model, name, value)\<close>\<close>
  "set_attr m name v = m \<lparr> params := (params m)(name \<mapsto> v) \<rparr>"

subsection \<open>\<^verbatim>\<open>IdealImager\<close>\<close>

text \<open>
  A method that sets an attribute of the caller's source returns the source as it is
  afterwards, next to its result: the source is left as it is at the moment an
  exception is raised.
\<close>

definition ideal_inject_smooth_model ::
  "image \<Rightarrow> source \<Rightarrow> string \<Rightarrow> real \<Rightarrow> (error + image) \<times> source" where
  "ideal_inject_smooth_model img src bandpass zpt =
   (case smooth_model src of
      NoAttr \<Rightarrow> (Inr img, src)
    | IsNone \<Rightarrow> (Inr img, src)
    | Model m \<Rightarrow>
       (case sp src of
          None \<Rightarrow> (Inl (AttributeError ''sp''), src)
        | Some mag_integrated_component \<Rightarrow>
           (case mag_integrated_component bandpass of
              Inl e \<Rightarrow> (Inl e, src)
            | Inr mag \<Rightarrow>
               (case mag_to_image_amplitude src mag zpt of
                  (amp, amp_image, name) \<Rightarrow>
                    (let m' = set_attr m name amp_image
                     in (Inr (add_images img (evaluate m' (shape img))),
                         src \<lparr> smooth_model := Model m' \<rparr>))))))"

definition ideal_observe ::
  "pyobject \<Rightarrow> string \<Rightarrow> image option \<Rightarrow> real \<Rightarrow> bool list option \<Rightarrow> boundary \<Rightarrow>
   (error + ideal_observation) \<times> pyobject" where
  "ideal_observe obj bandpass psf zpt msk bnd =
   (case check_source obj of
      Inl e \<Rightarrow> (Inl e, obj)
    | Inr src \<Rightarrow>
       (case map_of (mags src) bandpass of
          None \<Rightarrow> (Inl (KeyError bandpass), obj)
        | Some ms \<Rightarrow>
           (let flux = map (\<lambda>m. 10 powr (0.4 * (zpt - m))) ms
            in case inject_stars (star_x src) (star_y src) flux (xy_dim src) msk of
                 Inl e \<Rightarrow> (Inl e, obj)
               | Inr img0 \<Rightarrow>
                  (case ideal_inject_smooth_model img0 src bandpass zpt of
                     (Inl e, src') \<Rightarrow> (Inl e, SourceObject src')
                   | (Inr img1, src') \<Rightarrow>
                      (case apply_seeing img1 psf bnd of
                         Inl e \<Rightarrow> (Inl e, SourceObject src')
                       | Inr img2 \<Rightarrow>
                          (Inr \<lparr> ideal_image = img2, ideal_zpt = zpt,
                                 ideal_bandpass = bandpass \<rparr>,
                           SourceObject src'))))))"

subsection \<open>\<^verbatim>\<open>ArtImager\<close>\<close>

text \<open>
  In \<^verbatim>\<open>inject_smooth_model\<close> below, \<^verbatim>\<open>float(source.mags[bandpass])\<close> of an array with one
  element is that element, and a \<^verbatim>\<open>TypeError\<close> for any other length. (A numpy that
  refuses \<^verbatim>\<open>float\<close> of every array of one dimension raises in the first case too.)
\<close>

definition art_inject_smooth_model ::
  "'g art_imager \<Rightarrow> image \<Rightarrow> source \<Rightarrow> string \<Rightarrow> quantity \<Rightarrow> real \<Rightarrow>
   (error + image) \<times> source" where
  "art_inject_smooth_model self img src bandpass exptime zpt =
   (case smooth_model src of
      NoAttr \<Rightarrow> (Inr img, src)
    | IsNone \<Rightarrow> (Inr img, src)
    | Model m \<Rightarrow>
       (case (case sp src of
                Some mag_integrated_component \<Rightarrow> mag_integrated_component bandpass
              | None \<Rightarrow>
                 (case map_of (mags src) bandpass of
                    None \<Rightarrow> Inl (KeyError bandpass)
                  | Some ms \<Rightarrow> (case ms of [v] \<Rightarrow> Inr v | _ \<Rightarrow> Inl TypeError))) of
          Inl e \<Rightarrow> (Inl e, src)
        | Inr mag \<Rightarrow>
           (case mag_to_image_amplitude src mag zpt of
              (amp, amp_image, name) \<Rightarrow>
                (case sb_to_counts_per_pixel self amp bandpass exptime (pixel_scale src) of
                   Inl e \<Rightarrow> (Inl e, src)
                 | Inr amp_counts \<Rightarrow>
                    (let m' = set_attr m name amp_counts
                     in (Inr (add_images img (evaluate m' (shape img))),
                         src \<lparr> smooth_model := Model m' \<rparr>))))))"

definition import_bkg :: "image \<Rightarrow> quantity \<Rightarrow> error + image" where
  \<comment> \<open>the argument is the array in the second unit of the FITS file\<close>
  "import_bkg data exptime =
     (case to_s_value exptime of Inl e \<Rightarrow> Inl e | Inr t \<Rightarrow> Inr (map (map (\<lambda>v. v * t)) data))"

definition add_background ::
  "image \<Rightarrow> int \<times> int \<Rightarrow> image \<Rightarrow> quantity \<Rightarrow> (int \<times> int) option \<Rightarrow> error + image" where
  \<comment> \<open>the branch \<^verbatim>\<open>if bkg_file is not None\<close> of \<^verbatim>\<open>observe\<close>\<close>
  "add_background img dims data exptime bkg_ori =
   (case import_bkg data exptime of
      Inl e \<Rightarrow> Inl e
    | Inr temp \<Rightarrow>
       (let half_size = (fst dims div 2, snd dims div 2);
            ori = (case bkg_ori of
                     None \<Rightarrow> (int (length temp) div 2 - fst half_size,
                              int (ncols temp) div 2 - snd half_size)
                   | Some origin \<Rightarrow> origin);
            cut = map (py_slice (snd ori) (snd ori + snd dims))
                      (py_slice (fst ori) (fst ori + fst dims) temp)
        in iadd img cut))"

text \<open>
  \<^verbatim>\<open>observe\<close> from the conversion of the magnitudes to the convolution with the psf: the
  image of the source counts before noise, and the counts of the stars.
\<close>

definition source_counts ::
  "'g art_imager \<Rightarrow> source \<Rightarrow> string \<Rightarrow> quantity \<Rightarrow> image option \<Rightarrow> real \<Rightarrow>
   bool list option \<Rightarrow> image option \<Rightarrow> (int \<times> int) option \<Rightarrow> boundary \<Rightarrow>
   (error + image \<times> real list) \<times> source" where
  "source_counts self src bandpass exptime psf zpt msk bkg_file bkg_ori bnd =
   (case map_of (mags src) bandpass of
      None \<Rightarrow> (Inl (KeyError bandpass), src)
    | Some ms \<Rightarrow>
   (case mag_to_counts self ms bandpass exptime of
      Inl e \<Rightarrow> (Inl e, src)
    | Inr counts \<Rightarrow>
   (case inject_stars (star_x src) (star_y src) counts (xy_dim src) msk of
      Inl e \<Rightarrow> (Inl e, src)
    | Inr img0 \<Rightarrow>
   (case art_inject_smooth_model self img0 src bandpass exptime zpt of
      (Inl e, src') \<Rightarrow> (Inl e, src')
    | (Inr img1, src') \<Rightarrow>
   (case (case bkg_file of
            None \<Rightarrow> Inr img1
          | Some data \<Rightarrow> add_background img1 (xy_dim src') data exptime bkg_ori) of
      Inl e \<Rightarrow> (Inl e, src')
    | Inr img2 \<Rightarrow>
   (case apply_seeing img2 psf bnd of
      Inl e \<Rightarrow> (Inl e, src')
    | Inr img3 \<Rightarrow> (Inr (img3, counts), src')))))))"

definition mag_error_entry :: "real \<Rightarrow> real \<Rightarrow> real \<Rightarrow> real \<Rightarrow> real option" where
  \<comment> \<open>one entry of \<^verbatim>\<open>2.5 * np.log10(1 + n_s)\<close>; \<open>None\<close> where numpy writes nan or inf\<close>
  "mag_error_entry rn sky gn c =
     (let radicand = rn ^ 2 + sky * gn + c * gn in
      if radicand < 0 \<or> c * gn = 0 then None
      else let n_s = sqrt radicand / (c * gn)
           in if 1 + n_s \<le> 0 then None else Some (2.5 * log 10 (1 + n_s)))"

text \<open>The branch on \<^verbatim>\<open>sky_sb\<close>: the source counts, the sky counts and the magnitude error.\<close>

definition sky_step ::
  "'g art_imager \<Rightarrow> real \<Rightarrow> string \<Rightarrow> quantity \<Rightarrow> real option \<Rightarrow> image \<Rightarrow> real list \<Rightarrow>
   error + image \<times> real \<times> real list option" where
  "sky_step self pixscale bandpass exptime sky_sb img counts =
   (case sky_sb of
      Some sb \<Rightarrow>
        (case sb_to_counts_per_pixel self sb bandpass exptime pixscale of
           Inl e \<Rightarrow> Inl e
         | Inr sky \<Rightarrow>
            (case those (map (mag_error_entry (read_noise self) sky (gain self)) counts) of
               None \<Rightarrow> Inl NonFinite
             | Some err \<Rightarrow> Inr (img, sky, Some err)))
    | None \<Rightarrow> Inr (clip_negative img, 0, None))"

text \<open>
  Drawing one sample for every element of an array, in row-major order, with the
  generator state passed along.
\<close>

fun draw_list :: "('g \<Rightarrow> 'a \<Rightarrow> real \<times> 'g) \<Rightarrow> 'g \<Rightarrow> 'a list \<Rightarrow> real list \<times> 'g" where
  "draw_list d g [] = ([], g)"
| "draw_list d g (v # vs) =
     (case d g v of (s, g1) \<Rightarrow> (case draw_list d g1 vs of (ss, g2) \<Rightarrow> (s # ss, g2)))"

fun draw_image :: "('g \<Rightarrow> 'a \<Rightarrow> real \<times> 'g) \<Rightarrow> 'g \<Rightarrow> 'a list list \<Rightarrow> image \<times> 'g" where
  "draw_image d g [] = ([], g)"
| "draw_image d g (r # rs) =
     (case draw_list d g r of (s, g1) \<Rightarrow> (case draw_image d g1 rs of (ss, g2) \<Rightarrow> (s # ss, g2)))"

definition poisson_lam_max :: real where
  \<comment> \<open>numpy refuses a larger \<^verbatim>\<open>lam\<close> (64-bit \<^verbatim>\<open>long\<close>)\<close>
  "poisson_lam_max = 2 ^ 63 - 1 - sqrt (2 ^ 63 - 1) * 10"

definition poisson :: "'g platform \<Rightarrow> 'g \<Rightarrow> image \<Rightarrow> (error + image) \<times> 'g" where
  \<comment> \<open>\<^verbatim>\<open>rng.poisson(lam)\<close> for an array \<open>lam\<close>\<close>
  "poisson P g lam =
     (if list_ex (list_ex (\<lambda>v. v < 0)) lam then (Inl (ValueError ''lam < 0''), g)
      else if list_ex (list_ex (\<lambda>v. poisson_lam_max < v)) lam
      then (Inl (ValueError ''lam value too large''), g)
      else case draw_image (\<lambda>g v. case poisson_draw P g v of (n, g') \<Rightarrow> (real n, g')) g lam of
             (img, g') \<Rightarrow> (Inr img, g'))"

definition normal :: "'g platform \<Rightarrow> 'g \<Rightarrow> image \<Rightarrow> image \<Rightarrow> (error + image) \<times> 'g" where
  \<comment> \<open>\<^verbatim>\<open>rng.normal(loc, scale)\<close> for two arrays of the same shape\<close>
  "normal P g loc scale =
     (if list_ex (list_ex (\<lambda>v. v < 0)) scale then (Inl (ValueError ''scale < 0''), g)
      else case draw_image (\<lambda>g (l, s). normal_draw P g l s) g (map2 zip loc scale) of
             (img, g') \<Rightarrow> (Inr img, g'))"

text \<open>
  The noise of \<^verbatim>\<open>observe\<close> and \<^verbatim>\<open>observe_background\<close>: the Poisson draw on the electron
  level (a normal draw on Windows), then the read noise. The generator is \<^verbatim>\<open>self.rng\<close>;
  its state after the draws is returned.
\<close>

definition noise :: "'g platform \<Rightarrow> 'g art_imager \<Rightarrow> image \<Rightarrow> real \<Rightarrow> (error + image) \<times> 'g" where
  "noise P self src sky =
   (case (if win32 P
          then (let c = map (map (\<lambda>v. v + sky)) src in
                if list_ex (list_ex (\<lambda>v. v < 0)) c then (Inl NonFinite, rng self)
                else normal P (rng self) c (map (map sqrt) c))
          else (case poisson P (rng self) (map (map (\<lambda>v. (v + sky) * gain self)) src) of
                  (Inl e, g) \<Rightarrow> (Inl e, g)
                | (Inr n, g) \<Rightarrow>
                    if gain self = 0 then (Inl NonFinite, g)
                    else (Inr (map (map (\<lambda>v. v / gain self)) n), g))) of
      (Inl e, g1) \<Rightarrow> (Inl e, g1)
    | (Inr raw, g1) \<Rightarrow>
        if read_noise self > 0
        then (if gain self = 0 then (Inl ZeroDivisionError, g1)
              else case normal P g1 (map (map (\<lambda>v. 0)) src)
                                    (map (map (\<lambda>v. read_noise self / gain self)) src) of
                     (Inl e, g2) \<Rightarrow> (Inl e, g2)
                   | (Inr rn, g2) \<Rightarrow> (Inr (add_images raw rn), g2))
        else (Inr raw, g1))"

text \<open>
  The last part of \<^verbatim>\<open>observe\<close> and \<^verbatim>\<open>observe_background\<close>, which is the same text in
  both: noise, calibration, variance and the observation object.
\<close>

definition finish ::
  "'g platform \<Rightarrow> 'g art_imager \<Rightarrow> string \<Rightarrow> quantity \<Rightarrow> real \<Rightarrow> image \<Rightarrow> real \<Rightarrow>
   real list option \<Rightarrow> (error + art_observation) \<times> 'g" where
  "finish P self bandpass exptime zpt src sky err =
   (case noise P self src sky of
      (Inl e, g) \<Rightarrow> (Inl e, g)
    | (Inr raw, g) \<Rightarrow>
       (case calibration self bandpass exptime zpt of
          Inl e \<Rightarrow> (Inl e, g)
        | Inr cali \<Rightarrow>
           if gain self = 0 then (Inl ZeroDivisionError, g)
           else (Inr \<lparr> raw_counts = raw,
                       src_counts = src,
                       sky_counts = sky,
                       obs_image = map (map (\<lambda>v. (v - sky) * cali)) raw,
                       var_image = map (map (\<lambda>v. v + (read_noise self / gain self) ^ 2)) raw,
                       obs_calibration = cali,
                       obs_zpt = zpt,
                       obs_bandpass = bandpass,
                       obs_exptime = exptime,
                       mag_error = err \<rparr>, g)))"

text \<open>
  \<^verbatim>\<open>ArtImager.observe\<close>. The result comes with the caller's source object and the
  generator state as they are when the method returns or raises.
\<close>

definition observe ::
  "'g platform \<Rightarrow> 'g art_imager \<Rightarrow> pyobject \<Rightarrow> string \<Rightarrow> quantity \<Rightarrow> real option \<Rightarrow>
   image option \<Rightarrow> real \<Rightarrow> bool list option \<Rightarrow> image option \<Rightarrow> (int \<times> int) option \<Rightarrow>
   boundary \<Rightarrow> (error + art_observation) \<times> pyobject \<times> 'g" where
  "observe P self obj bandpass exptime_arg sky_sb psf zpt msk bkg_file bkg_ori bnd =
   (case check_bandpass (filters self) bandpass of
      Inl e \<Rightarrow> (Inl e, obj, rng self)
    | Inr u \<Rightarrow>
   (case check_source obj of
      Inl e \<Rightarrow> (Inl e, obj, rng self)
    | Inr src \<Rightarrow>
   (let exptime = check_units exptime_arg Second in
    case source_counts self src bandpass exptime psf zpt msk bkg_file bkg_ori bnd of
      (Inl e, src') \<Rightarrow> (Inl e, SourceObject src', rng self)
    | (Inr (img, counts), src') \<Rightarrow>
   (case sky_step self (pixel_scale src') bandpass exptime sky_sb img counts of
      Inl e \<Rightarrow> (Inl e, SourceObject src', rng self)
    | Inr (src_c, sky, err) \<Rightarrow>
   (case finish P self bandpass exptime zpt src_c sky err of
      (r, g) \<Rightarrow> (r, SourceObject src', g))))))"

text \<open>
  \<^verbatim>\<open>ArtImager.observe_background\<close>; \<open>data\<close> is the array of the background file. The
  argument \<^verbatim>\<open>xy_dim\<close> is not used by the method.
\<close>

definition observe_background ::
  "'g platform \<Rightarrow> 'g art_imager \<Rightarrow> image \<Rightarrow> string \<Rightarrow> quantity \<Rightarrow> int \<times> int \<Rightarrow> real \<Rightarrow>
   real option \<Rightarrow> image option \<Rightarrow> real \<Rightarrow> boundary \<Rightarrow> (error + art_observation) \<times> 'g" where
  "observe_background P self data bandpass exptime_arg dims pixscale sky_sb psf zpt bnd =
   (case check_bandpass (filters self) bandpass of
      Inl e \<Rightarrow> (Inl e, rng self)
    | Inr u \<Rightarrow>
   (let exptime = check_units exptime_arg Second in
    case import_bkg data exptime of
      Inl e \<Rightarrow> (Inl e, rng self)
    | Inr img0 \<Rightarrow>
   (case apply_seeing img0 psf bnd of
      Inl e \<Rightarrow> (Inl e, rng self)
    | Inr img1 \<Rightarrow>
   (case (case sky_sb of
            Some sb \<Rightarrow>
              (case sb_to_counts_per_pixel self sb bandpass exptime pixscale of
                 Inl e \<Rightarrow> Inl e
               | Inr sky \<Rightarrow> Inr (img1, sky))
          | None \<Rightarrow> Inr (clip_negative img1, 0)) of
      Inl e \<Rightarrow> (Inl e, rng self)
    | Inr (src_c, sky) \<Rightarrow> finish P self bandpass exptime zpt src_c sky None))))"

subsection \<open>Example objects\<close>

text \<open>
  An imager in empirical mode with \<^verbatim>\<open>zpt_inst={'F': 25.0}\<close>, no read noise and gain 1; a
  platform whose Poisson draw returns the integer part of the mean and whose normal
  draw returns the mean; sources with one star on a small grid.
\<close>

definition imager_F :: "unit art_imager" where
  "imager_F = \<lparr> efficiency = [], transparency = 1, read_noise = 0, gain = 1, diameter = 10,
                 rng = (), dlam = None, lam_eff = None, filters = [''F''],
                 zpt_inst = Some [(''F'', 25)] \<rparr>"

definition quiet_platform :: "unit platform" where
  "quiet_platform = \<lparr> poisson_draw = (\<lambda>g lam. (nat \<lfloor>lam\<rfloor>, g)),
                       normal_draw = (\<lambda>g loc scale. (loc, g)), win32 = False \<rparr>"

definition one_star :: source where
  "one_star = \<lparr> star_x = [1], star_y = [1], mags = [(''F'', [25])], xy_dim = (3, 3),
                 pixel_scale = 1, smooth_model = NoAttr, sp = None,
                 mag_to_image_amplitude =
                   (\<lambda>mag zpt. (mag, 10 powr (0.4 * (zpt - mag)), ''amplitude'')) \<rparr>"

definition wide_star :: source where
  \<comment> \<open>a grid of 3 pixels in x and 5 pixels in y\<close>
  "wide_star = one_star \<lparr> xy_dim := (3, 5) \<rparr>"

definition flat_profile :: smooth_profile where
  \<comment> \<open>a profile that is its amplitude everywhere\<close>
  "flat_profile = \<lparr> params = [''amplitude'' \<mapsto> 7],
                     profile = (\<lambda>p px py. case p ''amplitude'' of Some a \<Rightarrow> a | None \<Rightarrow> 0) \<rparr>"

definition smooth_star :: source where
  "smooth_star = one_star \<lparr> smooth_model := Model flat_profile, sp := Some (\<lambda>b. Inr 25) \<rparr>"

definition model_attr :: "pyobject \<Rightarrow> string \<Rightarrow> real option" where
  \<comment> \<open>\<^verbatim>\<open>getattr(source.smooth_model, name)\<close>, where there is one\<close>
  "model_attr obj name =
     (case obj of
        SourceObject s \<Rightarrow> (case smooth_model s of Model m \<Rightarrow> params m name | _ \<Rightarrow> None)
      | OtherObject \<Rightarrow> None)"

definition dark_corner :: image where
  \<comment> \<open>a background array with a negative value in its first pixel\<close>
  "dark_corner = [[- 0.5, 0, 0], [0, 0, 0], [0, 0, 0]]"

definition run_ideal_smooth :: "(error + ideal_observation) \<times> pyobject" where
  "run_ideal_smooth = ideal_observe (SourceObject smooth_star) ''F'' None 25 None Wrap"

definition run_wide :: "(error + ideal_observation) \<times> pyobject" where
  "run_wide = ideal_observe (SourceObject wide_star) ''F'' None 25 None Wrap"

definition run_no_sky :: "(error + art_observation) \<times> pyobject \<times> unit" where
  "run_no_sky = observe quiet_platform imager_F (SourceObject one_star) ''F'' (Bare 100)
                  None None 27 None (Some dark_corner) None Wrap"

definition run_sky :: "(error + art_observation) \<times> pyobject \<times> unit" where
  "run_sky = observe quiet_platform imager_F (SourceObject one_star) ''F'' (Bare 100)
               (Some 25) None 27 None (Some dark_corner) None Wrap"

definition run_art_smooth :: "(error + art_observation) \<times> pyobject \<times> unit" where
  "run_art_smooth = observe quiet_platform imager_F (SourceObject smooth_star) ''F'' (Bare 100)
                      None None 27 None None None Wrap"

definition run_background :: "(error + art_observation) \<times> unit" where
  "run_background = observe_background quiet_platform imager_F dark_corner ''F'' (Bare 100)
                      (3, 3) 1 (Some 25) None 27 Wrap"

subsection \<open>Relations used in the statements\<close>

text \<open>
  What the two pipelines do to a source that has a smooth model \<open>m\<close>.
  \<open>ideal_amplitude_set bandpass zpt src src'\<close>: the source \<open>src'\<close> is \<open>src\<close> with one
  attribute of \<open>m\<close> set, namely the attribute that \<^verbatim>\<open>mag_to_image_amplitude\<close> names, to the
  amplitude in image units that it returns for the integrated magnitude of the bandpass.
  \<open>art_amplitude_set self bandpass exptime zpt src src'\<close>: the same attribute is set to
  the counts per pixel of the surface brightness that \<^verbatim>\<open>mag_to_image_amplitude\<close> returns,
  for the integrated magnitude or, where the source has no \<^verbatim>\<open>sp\<close>, its one magnitude in
  the bandpass. Nothing else of the source differs.
\<close>

definition ideal_amplitude_set :: "string \<Rightarrow> real \<Rightarrow> source \<Rightarrow> source \<Rightarrow> bool" where
  "ideal_amplitude_set bandpass zpt src src' =
     (\<exists>m f mag. smooth_model src = Model m \<and> sp src = Some f \<and> f bandpass = Inr mag
        \<and> src' = src \<lparr> smooth_model :=
                   Model (set_attr m (snd (snd (mag_to_image_amplitude src mag zpt)))
                                     (fst (snd (mag_to_image_amplitude src mag zpt)))) \<rparr>)"

definition art_amplitude_set ::
  "'g art_imager \<Rightarrow> string \<Rightarrow> quantity \<Rightarrow> real \<Rightarrow> source \<Rightarrow> source \<Rightarrow> bool" where
  "art_amplitude_set self bandpass exptime zpt src src' =
     (\<exists>m mag v. smooth_model src = Model m
        \<and> (case sp src of
              Some f \<Rightarrow> f bandpass = Inr mag
            | None \<Rightarrow> map_of (mags src) bandpass = Some [mag])
        \<and> sb_to_counts_per_pixel self (fst (mag_to_image_amplitude src mag zpt)) bandpass exptime
             (pixel_scale src) = Inr v
        \<and> src' = src \<lparr> smooth_model :=
                   Model (set_attr m (snd (snd (mag_to_image_amplitude src mag zpt))) v) \<rparr>)"

text \<open>
  The magnitude error as the specification words it: one value for every pixel of the
  image of the source counts.
\<close>

definition pixel_mag_error :: "real \<Rightarrow> real \<Rightarrow> real \<Rightarrow> image \<Rightarrow> image" where
  "pixel_mag_error rn sky gn img =
     map (map (\<lambda>s. 2.5 * log 10 (1 + sqrt (rn ^ 2 + sky * gn + s * gn) / (s * gn)))) img"

section \<open>Properties\<close>

subsection \<open>Photometric conversion in empirical mode\<close>

lemma imager_F_init:
  "ArtImager_init [] 10 0 None (EffFloat 1) 1 None None (Some [(''F'', 25)]) () = Inr imager_F"
  by (simp add: ArtImager_init_def imager_F_def keys_def)

lemma init_empirical:
  assumes "ArtImager_init registry d rn gn eff tr dl le (Some z) g = Inr self"
  shows "zpt_inst self = Some z" and "filters self = keys z"
  using assms by (auto simp: ArtImager_init_def split: sum.splits efficiency_arg.splits)

lemma getitem_keys: "k \<in> set (keys z) \<Longrightarrow> \<exists>v. getitem z k = Inr v"
  by (auto simp: keys_def getitem_def map_of_eq_None_iff split: option.splits)

text \<open>
  C4. In empirical mode \<^verbatim>\<open>mag_to_counts\<close> returns \<open>10 ^ (0.4 * (zpt_inst[bandpass] - mag))\<close>
  times the exposure time in seconds, for every magnitude of the array; with
  \<^verbatim>\<open>zpt_inst={'F': 25.0}\<close>, magnitude 25 and 100 s the result is 100.
\<close>

theorem mag_to_counts_empirical:
  assumes "zpt_inst self = Some z" and "getitem z bandpass = Inr zp"
  shows "mag_to_counts self ms bandpass e =
         Inr (map (\<lambda>mag. 10 powr (0.4 * (zp - mag))
                         * (case e of Bare v \<Rightarrow> v | Quantity v u \<Rightarrow> v * seconds_per u)) ms)"
  using assms by (cases e) (simp_all add: mag_to_counts_def)

theorem mag_to_counts_empirical_witness:
  "zpt_inst imager_F = Some [(''F'', 25)] \<and> getitem [(''F'', 25)] ''F'' = Inr 25
   \<and> mag_to_counts imager_F [25] ''F'' (Quantity 100 Second) = Inr [100]"
  using mag_to_counts_empirical
          [of imager_F "[(''F'', 25)]" "''F''" 25 "[25]" "Quantity 100 Second"]
  by (simp add: imager_F_def getitem_def)

text \<open>
  The round trip in real arithmetic. For an imager constructed with \<^verbatim>\<open>zpt_inst\<close>, a
  bandpass of its filter set and a positive exposure time of \<open>t\<close> seconds,
  \<^verbatim>\<open>mag_to_counts\<close> returns positive counts, and \<open>mag = zpt - 2.5 * log10 (counts / t)\<close>
  for every magnitude, with \<open>zpt\<close> the instrumental zero point of the bandpass. This is
  a statement about the formula, over the reals: the values the code computes are
  float64, for which the equality holds only up to rounding and not at all once the
  count underflows to zero, and they are not modelled here.
\<close>

lemma round_trip_elem:
  assumes "0 < (t::real)"
  shows "0 < 10 powr (0.4 * (zp - mag)) * t
         \<and> mag = zp - 2.5 * log 10 (10 powr (0.4 * (zp - mag)) * t / t)"
  using assms by (simp add: field_simps)

lemma real_round_trip:
  assumes "ArtImager_init registry d rn gn eff tr dl le (Some z) g = Inr self"
    and "bandpass \<in> set (filters self)"
    and "to_s_value (check_units e Second) = Inr t" and "0 < t"
  shows "\<exists>zp cs. getitem z bandpass = Inr zp \<and> mag_to_counts self ms bandpass e = Inr cs
           \<and> list_all2 (\<lambda>mag c. 0 < c \<and> mag = zp - 2.5 * log 10 (c / t)) ms cs"
proof -
  have z: "zpt_inst self = Some z" and f: "filters self = keys z"
    using init_empirical [OF assms(1)] by auto
  from assms(2) f obtain zp where zp: "getitem z bandpass = Inr zp"
    using getitem_keys by metis
  have "mag_to_counts self ms bandpass e = Inr (map (\<lambda>mag. 10 powr (0.4 * (zp - mag)) * t) ms)"
    using z zp assms(3) by (simp add: mag_to_counts_def)
  moreover have "list_all2 (\<lambda>mag c. 0 < c \<and> mag = zp - 2.5 * log 10 (c / t)) ms
                   (map (\<lambda>mag. 10 powr (0.4 * (zp - mag)) * t) ms)"
    using round_trip_elem [OF assms(4)] by (simp add: list_all2_map2 list_all2_same)
  ultimately show ?thesis using zp by blast
qed

lemma real_round_trip_example:
  "\<exists>zp cs. getitem [(''F'', 25)] ''F'' = Inr zp
      \<and> mag_to_counts imager_F [20, 25] ''F'' (Bare 100) = Inr cs
      \<and> list_all2 (\<lambda>mag c. 0 < c \<and> mag = zp - 2.5 * log 10 (c / 100)) [20, 25] cs"
proof -
  have i: "ArtImager_init [] 10 0 None (EffFloat 1) 1 None None (Some [(''F'', 25)]) ()
           = Inr imager_F"
    by (rule imager_F_init)
  have f: "''F'' \<in> set (filters imager_F)" by (simp add: imager_F_def)
  have t: "to_s_value (check_units (Bare 100) Second) = Inr 100" by simp
  show ?thesis
    using real_round_trip [OF i f t, of "[20, 25]"] by simp
qed

subsection \<open>Evaluating the examples\<close>

lemmas raster_defs = inject_stars_def histogram2d_def tabulate_def bin_index_def T_def ncols_def


lemma upt_3: "[0..<3] = [0, 1, 2]"
  by (simp add: upt_rec)

lemma upt_5: "[0..<5] = [0, 1, 2, 3, 4]"
  by (simp add: upt_rec)

subsection \<open>The ideal pipeline's checks\<close>

text \<open>
  C1, as stated, fails: the ideal imager has no filter set, and \<^verbatim>\<open>IdealImager.observe\<close>
  never calls \<^verbatim>\<open>_check_bandpass\<close>. Here the bandpass \<open>F\<close> is not in the filter set \<open>[g]\<close>
  (the check would reject it), and the ideal pipeline returns an image.
\<close>

theorem ideal_observe_bandpass_counterexample:
  "check_bandpass [''g''] ''F'' = Inl (FilterNotProvided ''F'')
   \<and> fst (ideal_observe (SourceObject one_star) ''F'' None 25 None Wrap)
       = Inr \<lparr> ideal_image = [[0, 0, 0], [0, 1, 0], [0, 0, 0]], ideal_zpt = 25,
               ideal_bandpass = ''F'' \<rparr>"
  by (simp add: Let_def check_bandpass_def ideal_observe_def check_source_def one_star_def
        ideal_inject_smooth_model_def apply_seeing_def raster_defs upt_rec)

text \<open>
  C1, amended. The ideal pipeline validates the type of the source before anything else:
  an object that is not a \<^verbatim>\<open>Source\<close> raises at once, whatever the other arguments are.
  The bandpass is only looked up in the magnitudes of the source; a bandpass with no
  entry there raises a key error before any flux is computed or rasterized.
\<close>

theorem ideal_observe_checks_source:
  "ideal_observe OtherObject bandpass psf zpt msk bnd = (Inl NotASource, OtherObject)
   \<and> (map_of (mags src) bandpass = None \<longrightarrow>
        ideal_observe (SourceObject src) bandpass psf zpt msk bnd
        = (Inl (KeyError bandpass), SourceObject src))"
  by (simp add: ideal_observe_def check_source_def)

theorem ideal_observe_checks_source_witness:
  "ideal_observe OtherObject ''F'' None 27 None Wrap = (Inl NotASource, OtherObject)
   \<and> map_of (mags one_star) ''g'' = None
   \<and> ideal_observe (SourceObject one_star) ''g'' None 27 None Wrap
        = (Inl (KeyError ''g''), SourceObject one_star)"
  using ideal_observe_checks_source [of "''F''" None 27 None Wrap one_star]
        ideal_observe_checks_source [of "''g''" None 27 None Wrap one_star]
  by (simp add: one_star_def)

subsection \<open>The rasterizer\<close>

text \<open>
  C3 at the input \<open>N = 3\<close>, \<open>(x0, y0) = (2, 1)\<close>, \<open>w = 5\<close>: the range of the histogram ends
  at \<open>N - 1\<close> and its upper edge is excluded, so the star in the last column is dropped
  and the image is zero everywhere.
\<close>

theorem inject_stars_last_column:
  "inject_stars [2] [1] [5] (3, 3) None = Inr [[0, 0, 0], [0, 0, 0], [0, 0, 0]]"
  by (simp add: raster_defs upt_rec)

text \<open>
  With \<open>N = 1\<close> the range is empty and the histogram is refused. Below the last row and
  column the placement is exact.
\<close>

lemma inject_stars_one_pixel:
  "inject_stars [0] [0] [5] (1, 1) None = Inl (ValueError ''xmax should be greater than xmin'')"
  by (simp add: raster_defs)

lemma bin_index_exact:
  assumes "0 \<le> k" and "k < n - 1"
  shows "bin_index 0 (real_of_int n - 1) n (real_of_int k) = nat k"
proof -
  have n: "0 < real_of_int n - 1" using assms by linarith
  have "(real_of_int k - 0) * (real_of_int n / (real_of_int n - 1))
        = real_of_int k + real_of_int k / (real_of_int n - 1)"
    using n by (simp add: field_simps)
  moreover have "0 \<le> real_of_int k / (real_of_int n - 1)" using assms n by simp
  moreover have "real_of_int k / (real_of_int n - 1) < 1" using assms n by simp
  ultimately have "\<lfloor>(real_of_int k - 0) * (real_of_int n / (real_of_int n - 1))\<rfloor> = k"
    by (simp add: floor_unique)
  then show ?thesis by (simp add: bin_index_def)
qed

lemma inject_stars_single:
  assumes "0 \<le> x0" "x0 < n - 1" "0 \<le> y0" "y0 < n - 1"
  shows "inject_stars [real_of_int x0] [real_of_int y0] [w] (n, n) None
         = Inr (tabulate (nat n) (nat n) (\<lambda>i j. if i = nat y0 \<and> j = nat x0 then w else 0))"
proof -
  have n: "0 < n" "0 < real_of_int n - 1" using assms by linarith+
  have nc: "ncols (tabulate (nat n) (nat n) f) = nat n" for f :: "nat \<Rightarrow> nat \<Rightarrow> real"
    using n by (simp add: tabulate_def ncols_def upt_conv_Cons)
  have "histogram2d [real_of_int x0] [real_of_int y0] (n, n) [w]
          ((0, real_of_int n - 1), (0, real_of_int n - 1))
        = Inr (tabulate (nat n) (nat n) (\<lambda>ix iy. if nat x0 = ix \<and> nat y0 = iy then w else 0))"
    using assms n by (simp add: histogram2d_def bin_index_exact)
  moreover have "T (tabulate (nat n) (nat n) (\<lambda>ix iy. if nat x0 = ix \<and> nat y0 = iy then w else 0))
        = tabulate (nat n) (nat n) (\<lambda>i j. if i = nat y0 \<and> j = nat x0 then w else 0)"
    unfolding T_def nc by (auto simp: tabulate_def)
  ultimately show ?thesis by (simp add: inject_stars_def)
qed

subsection \<open>Shapes\<close>

lemma ncols_map_upt: "0 < n \<Longrightarrow> ncols (map g [0..<n]) = length (g 0)"
  by (simp add: ncols_def upt_conv_Cons)

lemma shape_tabulate: "0 < h \<Longrightarrow> shape (tabulate h w f) = (h, w)"
  by (simp add: shape_def tabulate_def ncols_map_upt)

lemma shape_tabulate_shape: "shape (tabulate (length m) (ncols m) f) = shape m"
proof (cases m)
  case Nil
  then show ?thesis by (simp add: shape_def tabulate_def ncols_def)
next
  case (Cons r rs)
  then have "shape (tabulate (length m) (ncols m) f) = (length m, ncols m)"
    by (intro shape_tabulate) simp
  then show ?thesis by (simp add: shape_def)
qed

lemma shape_T: "0 < ncols m \<Longrightarrow> shape (T m) = (ncols m, length m)"
  by (simp add: shape_def T_def ncols_map_upt)

lemma shape_T_tabulate:
  assumes "0 < h" and "0 < w"
  shows "shape (T (tabulate h w f)) = (w, h)"
proof -
  have "shape (tabulate h w f) = (h, w)" using assms(1) by (rule shape_tabulate)
  then have "ncols (tabulate h w f) = w" and "length (tabulate h w f) = h"
    by (simp_all add: shape_def)
  then show ?thesis using shape_T [of "tabulate h w f"] assms(2) by simp
qed

lemma shape_histogram2d:
  assumes "histogram2d px py (d0, d1) ws rg = Inr h"
  shows "shape (T h) = (nat d1, nat d0)"
proof -
  from assms have p: "0 < d0" "0 < d1"
    and h: "h = tabulate (nat d0) (nat d1) (\<lambda>ix iy. sum_list (map
                 (\<lambda>(tx, ty, tw).
                    if fst (fst rg) \<le> tx \<and> tx < snd (fst rg) \<and> fst (snd rg) \<le> ty \<and> ty < snd (snd rg)
                       \<and> bin_index (fst (fst rg)) (snd (fst rg)) d0 tx = ix
                       \<and> bin_index (fst (snd rg)) (snd (snd rg)) d1 ty = iy
                    then tw else 0)
                 (zip px (zip py ws))))"
    by (auto simp: histogram2d_def Let_def split: if_splits)
  show ?thesis unfolding h using p by (intro shape_T_tabulate) simp_all
qed

lemma shape_inject_stars:
  assumes "inject_stars px py signal (d0, d1) msk = Inr img"
  shows "shape img = (nat d1, nat d0)"
  using assms shape_histogram2d
  by (auto simp: inject_stars_def Let_def split: option.splits sum.splits)

lemma shape_add_images:
  assumes "shape b = shape a"
  shows "shape (add_images a b) = shape a"
proof (cases a)
  case Nil
  then show ?thesis by (simp add: add_images_def shape_def ncols_def)
next
  case (Cons r rs)
  with assms obtain r' rs' where b: "b = r' # rs'" and "length rs' = length rs" "length r' = length r"
    by (cases b) (auto simp: shape_def ncols_def)
  with Cons show ?thesis by (simp add: add_images_def shape_def ncols_def)
qed

lemma shape_evaluate: "shape (evaluate m (shape img)) = shape img"
  using shape_tabulate_shape [of img] by (simp add: evaluate_def shape_def)

lemma shape_ideal_inject_smooth_model:
  assumes "ideal_inject_smooth_model img src bandpass zpt = (Inr img', src')"
  shows "shape img' = shape img"
  using assms
  by (auto simp: ideal_inject_smooth_model_def Let_def shape_add_images shape_evaluate
           split: smooth_attr.splits option.splits sum.splits prod.splits)

lemma shape_art_inject_smooth_model:
  assumes "art_inject_smooth_model self img src bandpass exptime zpt = (Inr img', src')"
  shows "shape img' = shape img"
  using assms
  by (auto simp: art_inject_smooth_model_def Let_def shape_add_images shape_evaluate
           split: smooth_attr.splits option.splits sum.splits prod.splits)

lemma shape_iadd: "iadd dst src = Inr img \<Longrightarrow> shape img = shape dst"
  by (auto simp: iadd_def Let_def shape_tabulate_shape split: if_splits)

lemma shape_add_background:
  "add_background img dims data exptime bkg_ori = Inr img' \<Longrightarrow> shape img' = shape img"
  by (auto simp: add_background_def Let_def split: sum.splits dest: shape_iadd)

lemma shape_apply_seeing: "apply_seeing img psf bnd = Inr img' \<Longrightarrow> shape img' = shape img"
  by (auto simp: apply_seeing_def convolve_fft_def shape_tabulate_shape split: option.splits if_splits)

lemma shape_map_map: "shape (map (map f) a) = shape a"
  by (cases a) (simp_all add: shape_def ncols_def)

lemma shape_clip_negative: "shape (clip_negative a) = shape a"
  by (simp add: clip_negative_def shape_map_map)


lemma shape_lengths:
  "shape a = (length (map length a), (case map length a of [] \<Rightarrow> 0 | n # ns \<Rightarrow> n))"
  by (cases a) (simp_all add: shape_def ncols_def)

lemma shape_cong: "map length a = map length b \<Longrightarrow> shape a = shape b"
  by (simp only: shape_lengths)

lemma draw_list_length: "draw_list d g vs = (ss, g') \<Longrightarrow> length ss = length vs"
  by (induction vs arbitrary: g ss g') (auto split: prod.splits)

lemma draw_image_lengths: "draw_image d g rows = (img, g') \<Longrightarrow> map length img = map length rows"
  by (induction rows arbitrary: g img g') (auto split: prod.splits dest: draw_list_length)

lemma poisson_lengths: "poisson P g lam = (Inr n, g') \<Longrightarrow> map length n = map length lam"
  by (auto simp: poisson_def split: if_splits prod.splits dest: draw_image_lengths)

lemma map2_zip_lengths:
  "map length b = map length a \<Longrightarrow> map length (map2 zip a b) = map length a"
proof (induction a arbitrary: b)
  case Nil
  then show ?case by simp
next
  case (Cons r rs)
  then obtain r' rs' where "b = r' # rs'" by (cases b) auto
  with Cons show ?case by simp
qed

lemma normal_lengths:
  assumes "normal P g loc scale = (Inr img, g')" and "map length scale = map length loc"
  shows "map length img = map length loc"
proof -
  from assms(1) have "draw_image (\<lambda>g (l, s). normal_draw P g l s) g (map2 zip loc scale) = (img, g')"
    by (simp add: normal_def split: if_splits prod.splits)
  from draw_image_lengths [OF this] have "map length img = map length (map2 zip loc scale)" .
  also have "\<dots> = map length loc" using assms(2) by (rule map2_zip_lengths)
  finally show ?thesis .
qed

lemma add_images_lengths:
  "map length a = map length b \<Longrightarrow> map length (add_images a b) = map length a"
  unfolding add_images_def by (induction a arbitrary: b) auto

lemma map_map_lengths: "map length (map (map f) a) = map length a"
  by simp

lemma noise_lengths:
  assumes "noise P self src sky = (Inr raw, g)"
  shows "map length raw = map length src"
proof -
  let ?first = "(if win32 P
          then (let c = map (map (\<lambda>v. v + sky)) src in
                if list_ex (list_ex (\<lambda>v. v < 0)) c then (Inl NonFinite, rng self)
                else normal P (rng self) c (map (map sqrt) c))
          else (case poisson P (rng self) (map (map (\<lambda>v. (v + sky) * gain self)) src) of
                  (Inl e, g) \<Rightarrow> (Inl e, g)
                | (Inr n, g) \<Rightarrow>
                    if gain self = 0 then (Inl NonFinite, g)
                    else (Inr (map (map (\<lambda>v. v / gain self)) n), g)))"
  obtain r1 g1 where f: "?first = (r1, g1)" by (cases ?first)
  from assms f obtain raw1 where r1: "r1 = Inr raw1"
    unfolding noise_def by (cases r1) (simp_all)
  have l1: "map length raw1 = map length src"
  proof (cases "win32 P")
    case True
    with f r1 have "normal P (rng self) (map (map (\<lambda>v. v + sky)) src)
                      (map (map sqrt) (map (map (\<lambda>v. v + sky)) src)) = (Inr raw1, g1)"
      by (simp add: Let_def split: if_splits)
    from normal_lengths [OF this] show ?thesis by (simp only: map_map_lengths)
  next
    case False
    with f r1 obtain n where
      "poisson P (rng self) (map (map (\<lambda>v. (v + sky) * gain self)) src) = (Inr n, g1)"
      "raw1 = map (map (\<lambda>v. v / gain self)) n"
      by (auto split: prod.splits sum.splits if_splits)
    from poisson_lengths [OF this(1)] this(2) show ?thesis by (simp only: map_map_lengths)
  qed
  show ?thesis
  proof (cases "read_noise self > 0")
    case False
    with assms f r1 have "raw = raw1" unfolding noise_def by simp
    then show ?thesis using l1 by simp
  next
    case True
    with assms f r1 obtain rn g2 where
      n: "normal P g1 (map (map (\<lambda>v. 0)) src) (map (map (\<lambda>v. read_noise self / gain self)) src) = (Inr rn, g2)"
      and raw: "raw = add_images raw1 rn"
      unfolding noise_def by (auto split: if_splits prod.splits sum.splits)
    from normal_lengths [OF n] have "map length rn = map length src" by (simp only: map_map_lengths)
    then show ?thesis using raw l1 by (simp add: add_images_lengths)
  qed
qed

lemma finish_fields:
  assumes "finish P self bandpass exptime zpt src sky err = (Inr obs, g)"
  shows "src_counts obs = src" and "sky_counts obs = sky" and "mag_error obs = err"
    and "gain self \<noteq> 0"
    and "fst (noise P self src sky) = Inr (raw_counts obs)"
    and "var_image obs = map (map (\<lambda>v. v + (read_noise self / gain self) ^ 2)) (raw_counts obs)"
    and "\<exists>cali. calibration self bandpass exptime zpt = Inr cali \<and> obs_calibration obs = cali
           \<and> obs_image obs = map (map (\<lambda>v. (v - sky) * cali)) (raw_counts obs)"
  using assms
  by (auto simp: finish_def split: prod.splits sum.splits if_splits)

lemma finish_shapes:
  assumes "finish P self bandpass exptime zpt src sky err = (Inr obs, g)"
  shows "shape (raw_counts obs) = shape src" and "shape (var_image obs) = shape src"
    and "shape (obs_image obs) = shape src" and "shape (src_counts obs) = shape src"
proof -
  from finish_fields(5) [OF assms] obtain g' where "noise P self src sky = (Inr (raw_counts obs), g')"
    by (cases "noise P self src sky") auto
  from noise_lengths [OF this] show r: "shape (raw_counts obs) = shape src" by (rule shape_cong)
  show "shape (var_image obs) = shape src"
    using finish_fields(6) [OF assms] r by (simp add: shape_map_map)
  show "shape (obs_image obs) = shape src"
    using finish_fields(7) [OF assms] r by (auto simp: shape_map_map)
  show "shape (src_counts obs) = shape src"
    using finish_fields(1) [OF assms] by simp
qed

lemma shape_source_counts:
  assumes "source_counts self src bandpass exptime psf zpt msk bkg_file bkg_ori bnd = (Inr (img, counts), src')"
  shows "shape img = (nat (snd (xy_dim src)), nat (fst (xy_dim src)))"
proof -
  from assms obtain ms cs img0 img1 img2 where
    "inject_stars (star_x src) (star_y src) cs (xy_dim src) msk = Inr img0"
    and "art_inject_smooth_model self img0 src bandpass exptime zpt = (Inr img1, src')"
    and "(case bkg_file of None \<Rightarrow> Inr img1
          | Some data \<Rightarrow> add_background img1 (xy_dim src') data exptime bkg_ori) = Inr img2"
    and "apply_seeing img2 psf bnd = Inr img"
    unfolding source_counts_def
    by (auto split: option.splits sum.splits prod.splits)
  moreover from this(3) have "shape img2 = shape img1"
    by (cases bkg_file) (auto dest: shape_add_background)
  ultimately show ?thesis
    using shape_inject_stars [of "star_x src" "star_y src" cs "fst (xy_dim src)" "snd (xy_dim src)" msk img0]
      shape_art_inject_smooth_model shape_apply_seeing by fastforce
qed

lemma shape_sky_step:
  "sky_step self ps bandpass exptime sky_sb img counts = Inr (src_c, sky, err) \<Longrightarrow> shape src_c = shape img"
  by (auto simp: sky_step_def shape_clip_negative split: option.splits sum.splits)

subsection \<open>The structure of \<^verbatim>\<open>observe\<close>\<close>

lemma plm: "v \<le> 10 ^ 18 \<Longrightarrow> \<not> poisson_lam_max < v"
proof -
  have "sqrt (2 ^ 63 - 1) \<le> sqrt ((2 ^ 32) ^ 2)" by (subst real_sqrt_le_iff) simp
  then have "sqrt (2 ^ 63 - 1) \<le> 2 ^ 32" by simp
  then have "10 ^ 18 \<le> poisson_lam_max" by (simp add: poisson_lam_max_def)
  then show "v \<le> 10 ^ 18 \<Longrightarrow> \<not> poisson_lam_max < v" by simp
qed

lemma one_plus_ratio: "0 \<le> a \<Longrightarrow> 0 < b \<Longrightarrow> \<not> 1 + sqrt a / b \<le> (0::real)"
proof -
  assume "0 \<le> a" "0 < b"
  then have "0 \<le> sqrt a / b" by simp
  then show ?thesis by linarith
qed

lemma observe_spine:
  assumes "bandpass \<in> set (filters self)"
    and "source_counts self src bandpass (check_units e Second) psf zpt msk bkg ori bnd
         = (Inr (img, counts), src')"
    and "sky_step self (pixel_scale src') bandpass (check_units e Second) sky_sb img counts
         = Inr (c, s, er)"
  shows "observe P self (SourceObject src) bandpass e sky_sb psf zpt msk bkg ori bnd
         = (case finish P self bandpass (check_units e Second) zpt c s er of
              (r, g) \<Rightarrow> (r, SourceObject src', g))"
  using assms by (simp add: observe_def check_bandpass_def check_source_def Let_def)

lemma star_counts:
  "inject_stars [1] [1] [100] (3, 3) None = Inr [[0, 0, 0], [0, 100, 0], [0, 0, 0]]"
  by (simp add: raster_defs upt_3)

lemma import_dark:
  "import_bkg dark_corner (Quantity 100 Second) = Inr [[- 50, 0, 0], [0, 0, 0], [0, 0, 0]]"
  by (simp add: import_bkg_def dark_corner_def)

lemma py_slice_3: "py_slice 0 3 [a, b, c] = [a, b, c]"
  by (simp add: py_slice_def)

lemma iadd_dark:
  "iadd [[0, 0, 0], [0, 100, 0], [0, 0, 0]] [[- 50, 0, 0], [0, 0, 0], [0, 0, 0]]
   = Inr [[- 50, 0, 0], [0, 100, 0], [0, 0, 0]]"
  by (simp add: iadd_def ncols_def tabulate_def upt_3)

lemma add_background_dark:
  "add_background [[0, 0, 0], [0, 100, 0], [0, 0, 0]] (3, 3) dark_corner (Quantity 100 Second) None
   = Inr [[- 50, 0, 0], [0, 100, 0], [0, 0, 0]]"
  by (simp add: add_background_def import_dark py_slice_3 iadd_dark ncols_def)

lemma dark_source_counts:
  "source_counts imager_F one_star ''F'' (Quantity 100 Second) None 27 None (Some dark_corner)
     None Wrap
   = (Inr ([[- 50, 0, 0], [0, 100, 0], [0, 0, 0]], [100]), one_star)"
  by (simp add: source_counts_def mag_to_counts_def getitem_def art_inject_smooth_model_def
        apply_seeing_def star_counts add_background_dark imager_F_def one_star_def)

lemma finish_no_sky:
  "finish quiet_platform imager_F ''F'' (Quantity 100 Second) 27
     [[0, 0, 0], [0, 100, 0], [0, 0, 0]] 0 None
   = (Inr \<lparr> raw_counts = [[0, 0, 0], [0, 100, 0], [0, 0, 0]],
             src_counts = [[0, 0, 0], [0, 100, 0], [0, 0, 0]], sky_counts = 0,
             obs_image = [[0, 0, 0], [0, 100 * (10 powr (0.4 * (27 - 25)) / 100), 0], [0, 0, 0]],
             var_image = [[0, 0, 0], [0, 100, 0], [0, 0, 0]],
             obs_calibration = 10 powr (0.4 * (27 - 25)) / 100,
             obs_zpt = 27, obs_bandpass = ''F'', obs_exptime = Quantity 100 Second,
             mag_error = None \<rparr>, ())"
  by (simp add: finish_def noise_def poisson_def calibration_def getitem_def plm
        imager_F_def quiet_platform_def)

lemma finish_sky:
  "finish quiet_platform imager_F ''F'' (Quantity 100 Second) 27
     [[- 50, 0, 0], [0, 100, 0], [0, 0, 0]] 100 er
   = (Inr \<lparr> raw_counts = [[50, 100, 100], [100, 200, 100], [100, 100, 100]],
             src_counts = [[- 50, 0, 0], [0, 100, 0], [0, 0, 0]], sky_counts = 100,
             obs_image = map (map (\<lambda>v. (v - 100) * (10 powr (0.4 * (27 - 25)) / 100)))
                           [[50, 100, 100], [100, 200, 100], [100, 100, 100]],
             var_image = [[50, 100, 100], [100, 200, 100], [100, 100, 100]],
             obs_calibration = 10 powr (0.4 * (27 - 25)) / 100,
             obs_zpt = 27, obs_bandpass = ''F'', obs_exptime = Quantity 100 Second,
             mag_error = er \<rparr>, ())"
  by (simp add: finish_def noise_def poisson_def calibration_def getitem_def plm
        imager_F_def quiet_platform_def)

lemma sky_step_none:
  "sky_step self ps bandpass ex None img counts = Inr (clip_negative img, 0, None)"
  by (simp add: sky_step_def)

lemma sky_step_dark:
  "sky_step imager_F 1 ''F'' (Quantity 100 Second) (Some 25)
     [[- 50, 0, 0], [0, 100, 0], [0, 0, 0]] [100]
   = Inr ([[- 50, 0, 0], [0, 100, 0], [0, 0, 0]], 100,
          Some [2.5 * log 10 (1 + sqrt 200 / 100)])"
  by (simp add: sky_step_def sb_to_counts_per_pixel_def getitem_def mag_error_entry_def
        one_plus_ratio imager_F_def)

lemma run_no_sky_value:
  "run_no_sky
   = (Inr \<lparr> raw_counts = [[0, 0, 0], [0, 100, 0], [0, 0, 0]],
             src_counts = [[0, 0, 0], [0, 100, 0], [0, 0, 0]], sky_counts = 0,
             obs_image = [[0, 0, 0], [0, 100 * (10 powr (0.4 * (27 - 25)) / 100), 0], [0, 0, 0]],
             var_image = [[0, 0, 0], [0, 100, 0], [0, 0, 0]],
             obs_calibration = 10 powr (0.4 * (27 - 25)) / 100,
             obs_zpt = 27, obs_bandpass = ''F'', obs_exptime = Quantity 100 Second,
             mag_error = None \<rparr>, SourceObject one_star, ())"
proof -
  have f: "''F'' \<in> set (filters imager_F)" by (simp add: imager_F_def)
  have c: "source_counts imager_F one_star ''F'' (check_units (Bare 100) Second) None 27 None
             (Some dark_corner) None Wrap
           = (Inr ([[- 50, 0, 0], [0, 100, 0], [0, 0, 0]], [100]), one_star)"
    using dark_source_counts by simp
  have s: "sky_step imager_F (pixel_scale one_star) ''F'' (check_units (Bare 100) Second) None
             [[- 50, 0, 0], [0, 100, 0], [0, 0, 0]] [100]
           = Inr ([[0, 0, 0], [0, 100, 0], [0, 0, 0]], 0, None)"
    by (simp add: sky_step_none clip_negative_def)
  show ?thesis
    unfolding run_no_sky_def observe_spine [OF f c s] using finish_no_sky by simp
qed

lemma run_sky_value:
  "run_sky
   = (Inr \<lparr> raw_counts = [[50, 100, 100], [100, 200, 100], [100, 100, 100]],
             src_counts = [[- 50, 0, 0], [0, 100, 0], [0, 0, 0]], sky_counts = 100,
             obs_image = map (map (\<lambda>v. (v - 100) * (10 powr (0.4 * (27 - 25)) / 100)))
                           [[50, 100, 100], [100, 200, 100], [100, 100, 100]],
             var_image = [[50, 100, 100], [100, 200, 100], [100, 100, 100]],
             obs_calibration = 10 powr (0.4 * (27 - 25)) / 100,
             obs_zpt = 27, obs_bandpass = ''F'', obs_exptime = Quantity 100 Second,
             mag_error = Some [2.5 * log 10 (1 + sqrt 200 / 100)] \<rparr>, SourceObject one_star, ())"
proof -
  have f: "''F'' \<in> set (filters imager_F)" by (simp add: imager_F_def)
  have c: "source_counts imager_F one_star ''F'' (check_units (Bare 100) Second) None 27 None
             (Some dark_corner) None Wrap
           = (Inr ([[- 50, 0, 0], [0, 100, 0], [0, 0, 0]], [100]), one_star)"
    using dark_source_counts by simp
  have s: "sky_step imager_F (pixel_scale one_star) ''F'' (check_units (Bare 100) Second) (Some 25)
             [[- 50, 0, 0], [0, 100, 0], [0, 0, 0]] [100]
           = Inr ([[- 50, 0, 0], [0, 100, 0], [0, 0, 0]], 100,
                  Some [2.5 * log 10 (1 + sqrt 200 / 100)])"
    using sky_step_dark by (simp add: one_star_def)
  show ?thesis
    unfolding run_sky_def observe_spine [OF f c s] using finish_sky by simp
qed


lemma ex_snd: "(\<exists>g. p = (a, g)) = (fst p = a)"
  by (cases p) auto

lemma observe_finish:
  assumes "fst (observe P self obj bandpass e sky_sb psf zpt msk bkg ori bnd) = Inr obs"
  shows "\<exists>src img counts src' c s er g.
           obj = SourceObject src \<and> bandpass \<in> set (filters self)
           \<and> source_counts self src bandpass (check_units e Second) psf zpt msk bkg ori bnd
               = (Inr (img, counts), src')
           \<and> sky_step self (pixel_scale src') bandpass (check_units e Second) sky_sb img counts
               = Inr (c, s, er)
           \<and> finish P self bandpass (check_units e Second) zpt c s er = (Inr obs, g)"
proof -
  from assms have b: "bandpass \<in> set (filters self)"
    by (auto simp: observe_def check_bandpass_def split: if_splits)
  from assms b obtain src where o: "obj = SourceObject src"
    by (cases obj) (auto simp: observe_def check_bandpass_def check_source_def)
  obtain r1 src' where sc:
    "source_counts self src bandpass (check_units e Second) psf zpt msk bkg ori bnd = (r1, src')"
    by (cases "source_counts self src bandpass (check_units e Second) psf zpt msk bkg ori bnd")
  from assms b o sc obtain img counts where r1: "r1 = Inr (img, counts)"
    by (cases r1) (auto simp: observe_def check_bandpass_def check_source_def Let_def)
  obtain r2 where ss:
    "sky_step self (pixel_scale src') bandpass (check_units e Second) sky_sb img counts = r2"
    by simp
  from assms b o sc r1 ss obtain c s er where r2: "r2 = Inr (c, s, er)"
    by (cases r2) (auto simp: observe_def check_bandpass_def check_source_def Let_def)
  obtain r3 g where f: "finish P self bandpass (check_units e Second) zpt c s er = (r3, g)"
    by (cases "finish P self bandpass (check_units e Second) zpt c s er")
  from assms b o sc r1 ss r2 f have "r3 = Inr obs"
    by (simp add: observe_def check_bandpass_def check_source_def Let_def)
  with b o sc r1 ss r2 f show ?thesis by blast
qed

lemma observe_background_finish:
  assumes "fst (observe_background P self data bandpass e dims ps sky_sb psf zpt bnd) = Inr obs"
  shows "\<exists>img0 img1 c s g.
           import_bkg data (check_units e Second) = Inr img0
           \<and> apply_seeing img0 psf bnd = Inr img1
           \<and> (case sky_sb of
                 Some sb \<Rightarrow> sb_to_counts_per_pixel self sb bandpass (check_units e Second) ps = Inr s
                            \<and> c = img1
               | None \<Rightarrow> c = clip_negative img1 \<and> s = 0)
           \<and> finish P self bandpass (check_units e Second) zpt c s None = (Inr obs, g)"
  using assms
  by (auto simp: observe_background_def check_bandpass_def Let_def ex_snd
           split: if_splits sum.splits option.splits prod.splits)

subsection \<open>The variance image\<close>

text \<open>
  C5. In every artificial observation, returned by \<^verbatim>\<open>observe\<close> or by
  \<^verbatim>\<open>observe_background\<close>, the variance image is the raw-count image plus
  \<open>(read_noise / gain)\<^sup>2\<close> in every pixel; with no read noise and gain 1 the two images
  are equal.
\<close>

theorem variance_image:
  assumes "fst (observe P self obj bandpass e sky_sb psf zpt msk bkg ori bnd) = Inr obs
           \<or> fst (observe_background P self data bandpass e dims ps sky_sb psf zpt bnd) = Inr obs"
  shows "var_image obs = map (map (\<lambda>v. v + (read_noise self / gain self) ^ 2)) (raw_counts obs)
         \<and> (read_noise self = 0 \<and> gain self = 1 \<longrightarrow> var_image obs = raw_counts obs)"
proof -
  have "\<exists>c s er g. finish P self bandpass (check_units e Second) zpt c s er = (Inr obs, g)"
    using assms
  proof
    assume "fst (observe P self obj bandpass e sky_sb psf zpt msk bkg ori bnd) = Inr obs"
    from observe_finish [OF this] show ?thesis by blast
  next
    assume "fst (observe_background P self data bandpass e dims ps sky_sb psf zpt bnd) = Inr obs"
    from observe_background_finish [OF this] show ?thesis by blast
  qed
  then obtain c s er g where
    "finish P self bandpass (check_units e Second) zpt c s er = (Inr obs, g)"
    by blast
  from finish_fields(6) [OF this]
  have v: "var_image obs = map (map (\<lambda>v. v + (read_noise self / gain self) ^ 2)) (raw_counts obs)" .
  have "var_image obs = raw_counts obs" if "read_noise self = 0 \<and> gain self = 1"
    using v that by simp
  with v show ?thesis by simp
qed

theorem variance_image_witness:
  "fst run_no_sky = Inr (projr (fst run_no_sky))
   \<and> read_noise imager_F = 0 \<and> gain imager_F = 1
   \<and> var_image (projr (fst run_no_sky)) = raw_counts (projr (fst run_no_sky))
   \<and> var_image (projr (fst run_no_sky)) = [[0, 0, 0], [0, 100, 0], [0, 0, 0]]"
proof -
  have v: "fst run_no_sky = Inr (projr (fst run_no_sky))" by (simp add: run_no_sky_value)
  then have h: "fst (observe quiet_platform imager_F (SourceObject one_star) ''F'' (Bare 100)
                  None None 27 None (Some dark_corner) None Wrap) = Inr (projr (fst run_no_sky))
      \<or> fst (observe_background quiet_platform imager_F [] ''F'' (Bare 100) (3, 3) 1 None None 27
                  Wrap) = Inr (projr (fst run_no_sky))"
    by (simp add: run_no_sky_def)
  show ?thesis
    using variance_image [OF h] v by (simp add: imager_F_def run_no_sky_value)
qed

subsection \<open>Observing without a sky level\<close>

lemma clip_negative_nonneg: "list_all (list_all (\<lambda>v. 0 \<le> v)) (clip_negative img)"
  by (auto simp: clip_negative_def list_all_iff)

lemma clip_negative_pointwise:
  "list_all2 (list_all2 (\<lambda>v c. c = (if v < 0 then 0 else v))) img (clip_negative img)"
  by (simp add: clip_negative_def list_all2_map2 list_all2_same)

text \<open>
  C6. With \<^verbatim>\<open>sky_sb=None\<close> the branch on the sky cannot raise: once the source counts are
  computed, the sky counts are zero, the magnitude error is \<^verbatim>\<open>None\<close>, and the image of
  the source counts is clipped at zero before it goes to the noise. The clipped image
  has the shape of the image before it, with 0 in the place of every negative pixel
  and every other pixel as it was; the observation that is returned holds these values.
\<close>

theorem observe_without_sky:
  assumes "bandpass \<in> set (filters self)"
    and "source_counts self src bandpass (check_units e Second) psf zpt msk bkg ori bnd
         = (Inr (img, counts), src')"
  shows "sky_step self (pixel_scale src') bandpass (check_units e Second) None img counts
           = Inr (clip_negative img, 0, None)
         \<and> list_all2 (list_all2 (\<lambda>v c. c = (if v < 0 then 0 else v))) img (clip_negative img)
         \<and> list_all (list_all (\<lambda>v. 0 \<le> v)) (clip_negative img)
         \<and> observe P self (SourceObject src) bandpass e None psf zpt msk bkg ori bnd
           = (case finish P self bandpass (check_units e Second) zpt (clip_negative img) 0 None of
                (r, g) \<Rightarrow> (r, SourceObject src', g))
         \<and> (fst (observe P self (SourceObject src) bandpass e None psf zpt msk bkg ori bnd) = Inr obs
              \<longrightarrow> sky_counts obs = 0 \<and> mag_error obs = None
                  \<and> src_counts obs = clip_negative img
                  \<and> list_all2 (list_all2 (\<lambda>v c. c = (if v < 0 then 0 else v))) img (src_counts obs)
                  \<and> fst (noise P self (clip_negative img) 0) = Inr (raw_counts obs)
                  \<and> fst (noise P self (src_counts obs) 0) = Inr (raw_counts obs))"
proof (intro conjI impI)
  show s: "sky_step self (pixel_scale src') bandpass (check_units e Second) None img counts
           = Inr (clip_negative img, 0, None)"
    by (rule sky_step_none)
  show "list_all2 (list_all2 (\<lambda>v c. c = (if v < 0 then 0 else v))) img (clip_negative img)"
    by (rule clip_negative_pointwise)
  show "list_all (list_all (\<lambda>v. 0 \<le> v)) (clip_negative img)"
    by (rule clip_negative_nonneg)
  show o: "observe P self (SourceObject src) bandpass e None psf zpt msk bkg ori bnd
           = (case finish P self bandpass (check_units e Second) zpt (clip_negative img) 0 None of
                (r, g) \<Rightarrow> (r, SourceObject src', g))"
    by (rule observe_spine [OF assms s])
  assume r: "fst (observe P self (SourceObject src) bandpass e None psf zpt msk bkg ori bnd) = Inr obs"
  obtain r' g where f:
    "finish P self bandpass (check_units e Second) zpt (clip_negative img) 0 None = (r', g)"
    by (cases "finish P self bandpass (check_units e Second) zpt (clip_negative img) 0 None")
  with r o have "r' = Inr obs" by simp
  with f have f':
    "finish P self bandpass (check_units e Second) zpt (clip_negative img) 0 None = (Inr obs, g)"
    by simp
  show "sky_counts obs = 0" by (rule finish_fields(2) [OF f'])
  show "mag_error obs = None" by (rule finish_fields(3) [OF f'])
  show c: "src_counts obs = clip_negative img" by (rule finish_fields(1) [OF f'])
  show "list_all2 (list_all2 (\<lambda>v c. c = (if v < 0 then 0 else v))) img (src_counts obs)"
    unfolding c by (rule clip_negative_pointwise)
  show n: "fst (noise P self (clip_negative img) 0) = Inr (raw_counts obs)"
    by (rule finish_fields(5) [OF f'])
  show "fst (noise P self (src_counts obs) 0) = Inr (raw_counts obs)"
    unfolding c by (rule n)
qed

theorem observe_without_sky_witness:
  "''F'' \<in> set (filters imager_F)
   \<and> source_counts imager_F one_star ''F'' (check_units (Bare 100) Second) None 27 None
        (Some dark_corner) None Wrap
      = (Inr ([[- 50, 0, 0], [0, 100, 0], [0, 0, 0]], [100]), one_star)
   \<and> fst run_no_sky = Inr (projr (fst run_no_sky))
   \<and> sky_counts (projr (fst run_no_sky)) = 0
   \<and> mag_error (projr (fst run_no_sky)) = None
   \<and> src_counts (projr (fst run_no_sky)) = [[0, 0, 0], [0, 100, 0], [0, 0, 0]]
   \<and> list_all2 (list_all2 (\<lambda>v c. c = (if v < 0 then 0 else v)))
        [[- 50, 0, 0], [0, 100, 0], [0, 0, 0]] (src_counts (projr (fst run_no_sky)))"
proof -
  have f: "''F'' \<in> set (filters imager_F)" by (simp add: imager_F_def)
  have c: "source_counts imager_F one_star ''F'' (check_units (Bare 100) Second) None 27 None
             (Some dark_corner) None Wrap
           = (Inr ([[- 50, 0, 0], [0, 100, 0], [0, 0, 0]], [100]), one_star)"
    using dark_source_counts by simp
  have v: "fst run_no_sky = Inr (projr (fst run_no_sky))" by (simp add: run_no_sky_value)
  show ?thesis
    using observe_without_sky [OF f c, of quiet_platform "projr (fst run_no_sky)"] f c v
    by (simp add: run_no_sky_def [symmetric] clip_negative_def)
qed

subsection \<open>Observing with a sky level\<close>

lemma finish_background_sky:
  "finish quiet_platform imager_F ''F'' (Quantity 100 Second) 27
     [[- 50, 0, 0], [0, 0, 0], [0, 0, 0]] 100 er
   = (Inr \<lparr> raw_counts = [[50, 100, 100], [100, 100, 100], [100, 100, 100]],
             src_counts = [[- 50, 0, 0], [0, 0, 0], [0, 0, 0]], sky_counts = 100,
             obs_image = map (map (\<lambda>v. (v - 100) * (10 powr (0.4 * (27 - 25)) / 100)))
                           [[50, 100, 100], [100, 100, 100], [100, 100, 100]],
             var_image = [[50, 100, 100], [100, 100, 100], [100, 100, 100]],
             obs_calibration = 10 powr (0.4 * (27 - 25)) / 100,
             obs_zpt = 27, obs_bandpass = ''F'', obs_exptime = Quantity 100 Second,
             mag_error = er \<rparr>, ())"
  by (simp add: finish_def noise_def poisson_def calibration_def getitem_def plm
        imager_F_def quiet_platform_def)

lemma sky_counts_F:
  "sb_to_counts_per_pixel imager_F 25 ''F'' (Quantity 100 Second) ps = Inr 100"
  by (simp add: sb_to_counts_per_pixel_def getitem_def imager_F_def)

lemma run_background_value:
  "run_background
   = (Inr \<lparr> raw_counts = [[50, 100, 100], [100, 100, 100], [100, 100, 100]],
             src_counts = [[- 50, 0, 0], [0, 0, 0], [0, 0, 0]], sky_counts = 100,
             obs_image = map (map (\<lambda>v. (v - 100) * (10 powr (0.4 * (27 - 25)) / 100)))
                           [[50, 100, 100], [100, 100, 100], [100, 100, 100]],
             var_image = [[50, 100, 100], [100, 100, 100], [100, 100, 100]],
             obs_calibration = 10 powr (0.4 * (27 - 25)) / 100,
             obs_zpt = 27, obs_bandpass = ''F'', obs_exptime = Quantity 100 Second,
             mag_error = None \<rparr>, ())"
proof -
  have "''F'' \<in> set (filters imager_F)" by (simp add: imager_F_def)
  then show ?thesis
    by (simp add: run_background_def observe_background_def check_bandpass_def import_dark
          apply_seeing_def sky_counts_F finish_background_sky Let_def)
qed

text \<open>
  C10. With a sky surface brightness supplied, the image of the source counts goes to
  the noise as it is, negative pixels included, and it is the \<^verbatim>\<open>src_counts\<close> of the
  observation; this holds for \<^verbatim>\<open>observe\<close> and for \<^verbatim>\<open>observe_background\<close>. Only without a
  sky level is the image clipped at zero. The witness has an observation with a negative
  source count.
\<close>

theorem observe_with_sky_keeps_negatives:
  assumes "source_counts self src bandpass (check_units e Second) psf zpt msk bkg ori bnd
           = (Inr (img, counts), src')"
    and "import_bkg data (check_units e Second) = Inr img0"
    and "apply_seeing img0 psf bnd = Inr img1"
  shows "(fst (observe P self (SourceObject src) bandpass e (Some sb) psf zpt msk bkg ori bnd) = Inr obs
            \<longrightarrow> src_counts obs = img
                \<and> sb_to_counts_per_pixel self sb bandpass (check_units e Second) (pixel_scale src')
                    = Inr (sky_counts obs)
                \<and> fst (noise P self img (sky_counts obs)) = Inr (raw_counts obs))
         \<and> (fst (observe P self (SourceObject src) bandpass e None psf zpt msk bkg ori bnd) = Inr obs'
            \<longrightarrow> src_counts obs' = clip_negative img)
         \<and> (fst (observe_background P self data bandpass e dims ps (Some sb) psf zpt bnd) = Inr bobs
            \<longrightarrow> src_counts bobs = img1
                \<and> fst (noise P self img1 (sky_counts bobs)) = Inr (raw_counts bobs))"
proof (intro conjI impI)
  assume r: "fst (observe P self (SourceObject src) bandpass e (Some sb) psf zpt msk bkg ori bnd) = Inr obs"
  from observe_finish [OF r] assms(1) obtain c s er g where
    ss: "sky_step self (pixel_scale src') bandpass (check_units e Second) (Some sb) img counts
         = Inr (c, s, er)"
    and f: "finish P self bandpass (check_units e Second) zpt c s er = (Inr obs, g)"
    by auto
  from ss have c: "c = img"
    and s: "sb_to_counts_per_pixel self sb bandpass (check_units e Second) (pixel_scale src') = Inr s"
    by (auto simp: sky_step_def split: sum.splits option.splits)
  show "src_counts obs = img" using finish_fields(1) [OF f] c by simp
  show "sb_to_counts_per_pixel self sb bandpass (check_units e Second) (pixel_scale src')
        = Inr (sky_counts obs)"
    using finish_fields(2) [OF f] s by simp
  show "fst (noise P self img (sky_counts obs)) = Inr (raw_counts obs)"
    using finish_fields(5) [OF f] finish_fields(2) [OF f] c by simp
next
  assume r: "fst (observe P self (SourceObject src) bandpass e None psf zpt msk bkg ori bnd) = Inr obs'"
  from observe_finish [OF r] assms(1) obtain c s er g where
    ss: "sky_step self (pixel_scale src') bandpass (check_units e Second) None img counts
         = Inr (c, s, er)"
    and f: "finish P self bandpass (check_units e Second) zpt c s er = (Inr obs', g)"
    by auto
  from ss have "c = clip_negative img" by (simp add: sky_step_none)
  then show "src_counts obs' = clip_negative img" using finish_fields(1) [OF f] by simp
next
  assume r: "fst (observe_background P self data bandpass e dims ps (Some sb) psf zpt bnd) = Inr bobs"
  from observe_background_finish [OF r] assms(2,3) obtain s g where
    f: "finish P self bandpass (check_units e Second) zpt img1 s None = (Inr bobs, g)"
    by auto
  show "src_counts bobs = img1" using finish_fields(1) [OF f] by simp
  show "fst (noise P self img1 (sky_counts bobs)) = Inr (raw_counts bobs)"
    using finish_fields(5) [OF f] finish_fields(2) [OF f] by simp
qed

theorem observe_with_sky_keeps_negatives_witness:
  "source_counts imager_F one_star ''F'' (check_units (Bare 100) Second) None 27 None
      (Some dark_corner) None Wrap
    = (Inr ([[- 50, 0, 0], [0, 100, 0], [0, 0, 0]], [100]), one_star)
   \<and> import_bkg dark_corner (check_units (Bare 100) Second) = Inr [[- 50, 0, 0], [0, 0, 0], [0, 0, 0]]
   \<and> apply_seeing [[- 50, 0, 0], [0, 0, 0], [0, 0, 0]] None Wrap = Inr [[- 50, 0, 0], [0, 0, 0], [0, 0, 0]]
   \<and> fst run_sky = Inr (projr (fst run_sky))
   \<and> fst run_no_sky = Inr (projr (fst run_no_sky))
   \<and> fst run_background = Inr (projr (fst run_background))
   \<and> src_counts (projr (fst run_sky)) = [[- 50, 0, 0], [0, 100, 0], [0, 0, 0]]
   \<and> src_counts (projr (fst run_sky)) ! 0 ! 0 < 0
   \<and> src_counts (projr (fst run_no_sky)) = [[0, 0, 0], [0, 100, 0], [0, 0, 0]]
   \<and> src_counts (projr (fst run_background)) = [[- 50, 0, 0], [0, 0, 0], [0, 0, 0]]"
proof -
  have c: "source_counts imager_F one_star ''F'' (check_units (Bare 100) Second) None 27 None
             (Some dark_corner) None Wrap
           = (Inr ([[- 50, 0, 0], [0, 100, 0], [0, 0, 0]], [100]), one_star)"
    using dark_source_counts by simp
  have i: "import_bkg dark_corner (check_units (Bare 100) Second)
           = Inr [[- 50, 0, 0], [0, 0, 0], [0, 0, 0]]"
    using import_dark by simp
  have a: "apply_seeing [[- 50, 0, 0], [0, 0, 0], [0, 0, 0]] None Wrap
           = Inr [[- 50, 0, 0], [0, 0, 0], [0, 0, 0]]"
    by (simp add: apply_seeing_def)
  have v: "fst run_sky = Inr (projr (fst run_sky))"
    "fst run_no_sky = Inr (projr (fst run_no_sky))"
    "fst run_background = Inr (projr (fst run_background))"
    by (simp_all add: run_sky_value run_no_sky_value run_background_value)
  show ?thesis
    using observe_with_sky_keeps_negatives [OF c i a, of quiet_platform 25
            "projr (fst run_sky)" "projr (fst run_no_sky)" "(3, 3)" 1 "projr (fst run_background)"]
      c i a v
    by (simp add: run_sky_def [symmetric] run_no_sky_def [symmetric]
          run_background_def [symmetric] clip_negative_def)
qed

subsection \<open>The magnitude error\<close>

lemma those_map:
  assumes "those (map f xs) = Some ys" and "\<And>x v. f x = Some v \<Longrightarrow> v = h x"
  shows "ys = map h xs"
  using assms(1)
proof (induction xs arbitrary: ys)
  case Nil
  then show ?case by simp
next
  case (Cons x xs)
  then obtain v vs where "f x = Some v" "those (map f xs) = Some vs" "ys = v # vs"
    by (auto split: option.splits)
  with Cons.IH assms(2) show ?case by simp
qed

lemma mag_error_entry_value:
  "mag_error_entry rn sky gn c = Some v \<Longrightarrow>
   v = 2.5 * log 10 (1 + sqrt (rn ^ 2 + sky * gn + c * gn) / (c * gn))"
  by (auto simp: mag_error_entry_def Let_def split: if_splits)

lemma source_counts_counts:
  assumes "source_counts self src bandpass ex psf zpt msk bkg ori bnd = (Inr (img, counts), src')"
  shows "\<exists>ms. map_of (mags src) bandpass = Some ms \<and> mag_to_counts self ms bandpass ex = Inr counts"
  using assms unfolding source_counts_def
  by (auto split: option.splits sum.splits prod.splits)

lemma sky_step_some:
  assumes "sky_step self ps bandpass ex (Some sb) img counts = Inr (c, s, er)"
  shows "c = img" and "sb_to_counts_per_pixel self sb bandpass ex ps = Inr s"
    and "\<exists>err. those (map (mag_error_entry (read_noise self) s (gain self)) counts) = Some err
               \<and> er = Some err"
proof -
  obtain r where r: "sb_to_counts_per_pixel self sb bandpass ex ps = r" by simp
  with assms obtain sky where sky: "r = Inr sky" by (cases r) (simp_all add: sky_step_def)
  obtain t where t: "those (map (mag_error_entry (read_noise self) sky (gain self)) counts) = t"
    by simp
  with assms r sky obtain err where err: "t = Some err"
    by (cases t) (simp_all add: sky_step_def)
  from assms r sky t err have e: "c = img \<and> s = sky \<and> er = Some err"
    by (simp add: sky_step_def)
  then show "c = img" by simp
  from e r sky show "sb_to_counts_per_pixel self sb bandpass ex ps = Inr s" by simp
  from e t err
  show "\<exists>err. those (map (mag_error_entry (read_noise self) s (gain self)) counts) = Some err
               \<and> er = Some err"
    by simp
qed

text \<open>
  C8, as stated, fails: the magnitude error is not an image. For a source with one star
  on a grid of 3 by 3 pixels it has one entry, where the source counts have nine, so it
  is not the per-pixel estimate of the specification.
\<close>

theorem mag_error_per_pixel_counterexample:
  "\<not> isl (fst run_sky)
   \<and> mag_error (projr (fst run_sky)) = Some [2.5 * log 10 (1 + sqrt 200 / 100)]
   \<and> length (concat (src_counts (projr (fst run_sky)))) = 9
   \<and> mag_error (projr (fst run_sky))
       \<noteq> Some (concat (pixel_mag_error (read_noise imager_F) (sky_counts (projr (fst run_sky)))
                         (gain imager_F) (src_counts (projr (fst run_sky)))))"
  by (simp add: run_sky_value pixel_mag_error_def)

text \<open>
  C8, amended. With a sky surface brightness supplied, the magnitude error of the
  observation has one entry for every star: \<open>2.5 * log10 (1 + n_s)\<close> with
  \<open>n_s = sqrt (read_noise\<^sup>2 + sky_counts * gain + c * gain) / (c * gain)\<close>, where \<open>c\<close> is
  the count that \<^verbatim>\<open>mag_to_counts\<close> gives for the magnitude of the star.
\<close>

theorem mag_error_per_star:
  assumes "fst (observe P self (SourceObject src) bandpass e (Some sb) psf zpt msk bkg ori bnd) = Inr obs"
  shows "\<exists>ms counts. map_of (mags src) bandpass = Some ms
           \<and> mag_to_counts self ms bandpass (check_units e Second) = Inr counts
           \<and> mag_error obs
               = Some (map (\<lambda>c. 2.5 * log 10 (1 + sqrt ((read_noise self) ^ 2
                                    + sky_counts obs * gain self + c * gain self)
                                  / (c * gain self))) counts)"
proof -
  from observe_finish [OF assms] obtain img counts src' c s er g where
    sc: "source_counts self src bandpass (check_units e Second) psf zpt msk bkg ori bnd
         = (Inr (img, counts), src')"
    and ss: "sky_step self (pixel_scale src') bandpass (check_units e Second) (Some sb) img counts
         = Inr (c, s, er)"
    and f: "finish P self bandpass (check_units e Second) zpt c s er = (Inr obs, g)"
    by auto
  from sky_step_some(3) [OF ss] obtain err where
    t: "those (map (mag_error_entry (read_noise self) s (gain self)) counts) = Some err"
    and er: "er = Some err"
    by blast
  have "err = map (\<lambda>c. 2.5 * log 10 (1 + sqrt ((read_noise self) ^ 2 + s * gain self + c * gain self)
                                  / (c * gain self))) counts"
    using t by (rule those_map) (rule mag_error_entry_value)
  with er finish_fields(2,3) [OF f] source_counts_counts [OF sc] show ?thesis by auto
qed

theorem mag_error_per_star_witness:
  "fst run_sky = Inr (projr (fst run_sky))
   \<and> (\<exists>ms counts. map_of (mags one_star) ''F'' = Some ms
         \<and> mag_to_counts imager_F ms ''F'' (check_units (Bare 100) Second) = Inr counts
         \<and> mag_error (projr (fst run_sky))
             = Some (map (\<lambda>c. 2.5 * log 10 (1 + sqrt ((read_noise imager_F) ^ 2
                                  + sky_counts (projr (fst run_sky)) * gain imager_F + c * gain imager_F)
                                / (c * gain imager_F))) counts))"
proof -
  have v: "fst run_sky = Inr (projr (fst run_sky))" by (simp add: run_sky_value)
  then have h: "fst (observe quiet_platform imager_F (SourceObject one_star) ''F'' (Bare 100)
               (Some 25) None 27 None (Some dark_corner) None Wrap) = Inr (projr (fst run_sky))"
    by (simp add: run_sky_def)
  show ?thesis using mag_error_per_star [OF h] v by simp
qed

subsection \<open>What \<^verbatim>\<open>observe\<close> does to the source\<close>

lemma ideal_inject_cases:
  assumes "ideal_inject_smooth_model img src bandpass zpt = (r, src')"
  shows "(src' = src \<and> (isl r \<or> (\<forall>m. smooth_model src \<noteq> Model m)))
         \<or> (\<not> isl r \<and> ideal_amplitude_set bandpass zpt src src')"
proof (cases "smooth_model src")
  case NoAttr
  with assms show ?thesis by (simp add: ideal_inject_smooth_model_def)
next
  case IsNone
  with assms show ?thesis by (simp add: ideal_inject_smooth_model_def)
next
  case (Model m)
  show ?thesis
  proof (cases "sp src")
    case None
    with assms Model show ?thesis by (auto simp: ideal_inject_smooth_model_def)
  next
    case (Some f)
    show ?thesis
    proof (cases "f bandpass")
      case (Inl e)
      with assms Model Some show ?thesis by (auto simp: ideal_inject_smooth_model_def)
    next
      case (Inr mag)
      obtain amp amp_image name where a: "mag_to_image_amplitude src mag zpt = (amp, amp_image, name)"
        by (cases "mag_to_image_amplitude src mag zpt")
      with assms Model Some Inr
      have "\<not> isl r" and "src' = src \<lparr> smooth_model := Model (set_attr m name amp_image) \<rparr>"
        by (auto simp: ideal_inject_smooth_model_def Let_def)
      with Model Some Inr a have "ideal_amplitude_set bandpass zpt src src'"
        unfolding ideal_amplitude_set_def by (intro exI [of _ m] exI [of _ f] exI [of _ mag]) simp
      with \<open>\<not> isl r\<close> show ?thesis by simp
    qed
  qed
qed

lemma art_inject_cases:
  assumes "art_inject_smooth_model self img src bandpass ex zpt = (r, src')"
  shows "(src' = src \<and> (isl r \<or> (\<forall>m. smooth_model src \<noteq> Model m)))
         \<or> (\<not> isl r \<and> art_amplitude_set self bandpass ex zpt src src')"
proof (cases "smooth_model src")
  case NoAttr
  with assms show ?thesis by (simp add: art_inject_smooth_model_def)
next
  case IsNone
  with assms show ?thesis by (simp add: art_inject_smooth_model_def)
next
  case (Model m)
  let ?mag = "(case sp src of
                Some mag_integrated_component \<Rightarrow> mag_integrated_component bandpass
              | None \<Rightarrow>
                 (case map_of (mags src) bandpass of
                    None \<Rightarrow> Inl (KeyError bandpass)
                  | Some ms \<Rightarrow> (case ms of [v] \<Rightarrow> Inr v | _ \<Rightarrow> Inl TypeError)))"
  show ?thesis
  proof (cases ?mag)
    case (Inl e)
    with assms Model show ?thesis by (auto simp: art_inject_smooth_model_def)
  next
    case (Inr mag)
    then have s: "(case sp src of
              Some f \<Rightarrow> f bandpass = Inr mag
            | None \<Rightarrow> map_of (mags src) bandpass = Some [mag])"
      by (auto split: option.splits list.splits)
    obtain amp amp_image name where a: "mag_to_image_amplitude src mag zpt = (amp, amp_image, name)"
      by (cases "mag_to_image_amplitude src mag zpt")
    show ?thesis
    proof (cases "sb_to_counts_per_pixel self amp bandpass ex (pixel_scale src)")
      case e: (Inl e)
      with assms Model Inr a show ?thesis by (auto simp: art_inject_smooth_model_def)
    next
      case v: (Inr v)
      with assms Model Inr a
      have "\<not> isl r" and "src' = src \<lparr> smooth_model := Model (set_attr m name v) \<rparr>"
        by (auto simp: art_inject_smooth_model_def Let_def)
      with Model s a v have "art_amplitude_set self bandpass ex zpt src src'"
        unfolding art_amplitude_set_def by (intro exI [of _ m] exI [of _ mag] exI [of _ v]) simp
      with \<open>\<not> isl r\<close> show ?thesis by simp
    qed
  qed
qed

lemma ideal_observe_state:
  "(snd (ideal_observe (SourceObject src) bandpass psf zpt msk bnd) = SourceObject src
      \<and> isl (fst (ideal_observe (SourceObject src) bandpass psf zpt msk bnd)))
   \<or> (\<exists>img0 r src'. ideal_inject_smooth_model img0 src bandpass zpt = (r, src')
         \<and> snd (ideal_observe (SourceObject src) bandpass psf zpt msk bnd) = SourceObject src'
         \<and> (isl r \<longrightarrow> isl (fst (ideal_observe (SourceObject src) bandpass psf zpt msk bnd))))"
proof (cases "map_of (mags src) bandpass")
  case None
  then show ?thesis by (simp add: ideal_observe_def check_source_def)
next
  case (Some ms)
  show ?thesis
  proof (cases "inject_stars (star_x src) (star_y src) (map (\<lambda>m. 10 powr (0.4 * (zpt - m))) ms)
                  (xy_dim src) msk")
    case (Inl e)
    with Some show ?thesis by (simp add: ideal_observe_def check_source_def)
  next
    case (Inr img0)
    obtain r src' where i: "ideal_inject_smooth_model img0 src bandpass zpt = (r, src')"
      by (cases "ideal_inject_smooth_model img0 src bandpass zpt")
    from Some Inr i
    have "snd (ideal_observe (SourceObject src) bandpass psf zpt msk bnd) = SourceObject src'"
      and "isl r \<longrightarrow> isl (fst (ideal_observe (SourceObject src) bandpass psf zpt msk bnd))"
      by (auto simp: ideal_observe_def check_source_def split: sum.splits)
    with i show ?thesis by blast
  qed
qed

lemma source_counts_state:
  "(snd (source_counts self src bandpass ex psf zpt msk bkg ori bnd) = src
      \<and> isl (fst (source_counts self src bandpass ex psf zpt msk bkg ori bnd)))
   \<or> (\<exists>img0 r src'. art_inject_smooth_model self img0 src bandpass ex zpt = (r, src')
         \<and> snd (source_counts self src bandpass ex psf zpt msk bkg ori bnd) = src'
         \<and> (isl r \<longrightarrow> isl (fst (source_counts self src bandpass ex psf zpt msk bkg ori bnd))))"
proof (cases "map_of (mags src) bandpass")
  case None
  then show ?thesis by (simp add: source_counts_def)
next
  case (Some ms)
  show ?thesis
  proof (cases "mag_to_counts self ms bandpass ex")
    case (Inl e)
    with Some show ?thesis by (simp add: source_counts_def)
  next
    case counts: (Inr counts)
    show ?thesis
    proof (cases "inject_stars (star_x src) (star_y src) counts (xy_dim src) msk")
      case (Inl e)
      with Some counts show ?thesis by (simp add: source_counts_def)
    next
      case (Inr img0)
      obtain r src' where i: "art_inject_smooth_model self img0 src bandpass ex zpt = (r, src')"
        by (cases "art_inject_smooth_model self img0 src bandpass ex zpt")
      from Some counts Inr i
      have "snd (source_counts self src bandpass ex psf zpt msk bkg ori bnd) = src'"
        and "isl r \<longrightarrow> isl (fst (source_counts self src bandpass ex psf zpt msk bkg ori bnd))"
        by (auto simp: source_counts_def split: sum.splits)
      with i show ?thesis by blast
    qed
  qed
qed

lemma observe_state:
  "(fst (snd (observe P self (SourceObject src) bandpass e sky_sb psf zpt msk bkg ori bnd))
      = SourceObject src
    \<and> isl (fst (observe P self (SourceObject src) bandpass e sky_sb psf zpt msk bkg ori bnd)))
   \<or> (fst (snd (observe P self (SourceObject src) bandpass e sky_sb psf zpt msk bkg ori bnd))
      = SourceObject (snd (source_counts self src bandpass (check_units e Second) psf zpt msk bkg
                             ori bnd))
    \<and> (isl (fst (source_counts self src bandpass (check_units e Second) psf zpt msk bkg ori bnd))
        \<longrightarrow> isl (fst (observe P self (SourceObject src) bandpass e sky_sb psf zpt msk bkg ori bnd))))"
proof (cases "check_bandpass (filters self) bandpass")
  case (Inl err)
  then show ?thesis by (simp add: observe_def)
next
  case (Inr u)
  obtain r src' where
    sc: "source_counts self src bandpass (check_units e Second) psf zpt msk bkg ori bnd = (r, src')"
    by (cases "source_counts self src bandpass (check_units e Second) psf zpt msk bkg ori bnd")
  from Inr sc
  have "fst (snd (observe P self (SourceObject src) bandpass e sky_sb psf zpt msk bkg ori bnd))
        = SourceObject src'"
    and "isl r \<longrightarrow> isl (fst (observe P self (SourceObject src) bandpass e sky_sb psf zpt msk bkg
                                ori bnd))"
    by (auto simp: observe_def check_source_def Let_def split: sum.splits prod.splits)
  with sc show ?thesis by simp
qed

lemma ideal_observe_frame:
  "snd (ideal_observe (SourceObject src) bandpass psf zpt msk bnd) = SourceObject src
   \<or> (\<exists>src'. snd (ideal_observe (SourceObject src) bandpass psf zpt msk bnd) = SourceObject src'
          \<and> ideal_amplitude_set bandpass zpt src src')"
proof -
  from ideal_observe_state [of src bandpass psf zpt msk bnd] show ?thesis
  proof (elim disjE exE conjE)
    assume "snd (ideal_observe (SourceObject src) bandpass psf zpt msk bnd) = SourceObject src"
    then show ?thesis by simp
  next
    fix img0 r src'
    assume i: "ideal_inject_smooth_model img0 src bandpass zpt = (r, src')"
      and s: "snd (ideal_observe (SourceObject src) bandpass psf zpt msk bnd) = SourceObject src'"
    from ideal_inject_cases [OF i] s show ?thesis by auto
  qed
qed

lemma ideal_observe_sets:
  assumes "fst (ideal_observe (SourceObject src) bandpass psf zpt msk bnd) = Inr iobs"
    and "smooth_model src = Model m"
  shows "\<exists>src'. snd (ideal_observe (SourceObject src) bandpass psf zpt msk bnd) = SourceObject src'
          \<and> ideal_amplitude_set bandpass zpt src src'"
proof -
  from assms(1) have n: "\<not> isl (fst (ideal_observe (SourceObject src) bandpass psf zpt msk bnd))"
    by simp
  with ideal_observe_state [of src bandpass psf zpt msk bnd] obtain img0 r src' where
    i: "ideal_inject_smooth_model img0 src bandpass zpt = (r, src')"
    and s: "snd (ideal_observe (SourceObject src) bandpass psf zpt msk bnd) = SourceObject src'"
    and r: "\<not> isl r"
    by blast
  from ideal_inject_cases [OF i] r assms(2) have "ideal_amplitude_set bandpass zpt src src'"
    by auto
  with s show ?thesis by blast
qed

lemma source_counts_frame:
  "snd (source_counts self src bandpass ex psf zpt msk bkg ori bnd) = src
   \<or> art_amplitude_set self bandpass ex zpt src
        (snd (source_counts self src bandpass ex psf zpt msk bkg ori bnd))"
proof -
  from source_counts_state [of self src bandpass ex psf zpt msk bkg ori bnd] show ?thesis
  proof (elim disjE exE conjE)
    assume "snd (source_counts self src bandpass ex psf zpt msk bkg ori bnd) = src"
    then show ?thesis by simp
  next
    fix img0 r src'
    assume i: "art_inject_smooth_model self img0 src bandpass ex zpt = (r, src')"
      and s: "snd (source_counts self src bandpass ex psf zpt msk bkg ori bnd) = src'"
    from art_inject_cases [OF i] s show ?thesis by auto
  qed
qed

lemma source_counts_sets:
  assumes "\<not> isl (fst (source_counts self src bandpass ex psf zpt msk bkg ori bnd))"
    and "smooth_model src = Model m"
  shows "art_amplitude_set self bandpass ex zpt src
           (snd (source_counts self src bandpass ex psf zpt msk bkg ori bnd))"
proof -
  from assms(1) source_counts_state [of self src bandpass ex psf zpt msk bkg ori bnd]
  obtain img0 r src' where
    i: "art_inject_smooth_model self img0 src bandpass ex zpt = (r, src')"
    and s: "snd (source_counts self src bandpass ex psf zpt msk bkg ori bnd) = src'"
    and r: "\<not> isl r"
    by blast
  from art_inject_cases [OF i] r assms(2) have "art_amplitude_set self bandpass ex zpt src src'"
    by auto
  with s show ?thesis by simp
qed

lemma observe_frame:
  "fst (snd (observe P self (SourceObject src) bandpass e sky_sb psf zpt msk bkg ori bnd))
     = SourceObject src
   \<or> (\<exists>src'. fst (snd (observe P self (SourceObject src) bandpass e sky_sb psf zpt msk bkg ori bnd))
            = SourceObject src'
          \<and> art_amplitude_set self bandpass (check_units e Second) zpt src src')"
  using observe_state [of P self src bandpass e sky_sb psf zpt msk bkg ori bnd]
    source_counts_frame [of self src bandpass "check_units e Second" psf zpt msk bkg ori bnd]
  by auto

lemma observe_sets:
  assumes "fst (observe P self (SourceObject src) bandpass e sky_sb psf zpt msk bkg ori bnd) = Inr obs"
    and "smooth_model src = Model m"
  shows "\<exists>src'. fst (snd (observe P self (SourceObject src) bandpass e sky_sb psf zpt msk bkg ori bnd))
            = SourceObject src'
          \<and> art_amplitude_set self bandpass (check_units e Second) zpt src src'"
proof -
  from assms(1)
  have n: "\<not> isl (fst (observe P self (SourceObject src) bandpass e sky_sb psf zpt msk bkg ori bnd))"
    by simp
  with observe_state [of P self src bandpass e sky_sb psf zpt msk bkg ori bnd]
  have s: "fst (snd (observe P self (SourceObject src) bandpass e sky_sb psf zpt msk bkg ori bnd))
      = SourceObject (snd (source_counts self src bandpass (check_units e Second) psf zpt msk bkg
                             ori bnd))"
    and r: "\<not> isl (fst (source_counts self src bandpass (check_units e Second) psf zpt msk bkg
                            ori bnd))"
    by auto
  from source_counts_sets [OF r assms(2)] s show ?thesis by simp
qed

lemma star_flux:
  "inject_stars [1] [1] [w] (3, 3) None = Inr [[0, 0, 0], [0, w, 0], [0, 0, 0]]"
  by (simp add: raster_defs upt_3)



lemma run_ideal_smooth_returns: "fst run_ideal_smooth = Inr (projr (fst run_ideal_smooth))"
  by (simp add: run_ideal_smooth_def ideal_observe_def check_source_def smooth_star_def one_star_def
        star_flux ideal_inject_smooth_model_def apply_seeing_def Let_def)

lemma smooth_injected:
  "art_inject_smooth_model imager_F [[0, 0, 0], [0, 100, 0], [0, 0, 0]] smooth_star ''F''
     (Quantity 100 Second) 27
   = (Inr [[100, 100, 100], [100, 200, 100], [100, 100, 100]],
      smooth_star \<lparr> smooth_model := Model (set_attr flat_profile ''amplitude'' 100) \<rparr>)"
  by (simp add: art_inject_smooth_model_def smooth_star_def one_star_def sky_counts_F
        set_attr_def flat_profile_def evaluate_def add_images_def shape_def ncols_def tabulate_def
        upt_3 Let_def)

lemma smooth_source_counts:
  "source_counts imager_F smooth_star ''F'' (Quantity 100 Second) None 27 None None None Wrap
   = (Inr ([[100, 100, 100], [100, 200, 100], [100, 100, 100]], [100]),
      smooth_star \<lparr> smooth_model := Model (set_attr flat_profile ''amplitude'' 100) \<rparr>)"
proof -
  have m: "map_of (mags smooth_star) ''F'' = Some [25]"
    and x: "star_x smooth_star = [1]" "star_y smooth_star = [1]" "xy_dim smooth_star = (3, 3)"
    by (simp_all add: smooth_star_def one_star_def)
  have c: "mag_to_counts imager_F [25] ''F'' (Quantity 100 Second) = Inr [100]"
    by (simp add: mag_to_counts_def getitem_def imager_F_def)
  show ?thesis
    by (simp add: source_counts_def m x c star_counts smooth_injected apply_seeing_def)
qed

lemma finish_smooth:
  "finish quiet_platform imager_F ''F'' (Quantity 100 Second) 27
     [[100, 100, 100], [100, 200, 100], [100, 100, 100]] 0 None
   = (Inr \<lparr> raw_counts = [[100, 100, 100], [100, 200, 100], [100, 100, 100]],
             src_counts = [[100, 100, 100], [100, 200, 100], [100, 100, 100]], sky_counts = 0,
             obs_image = map (map (\<lambda>v. v * (10 powr (0.4 * (27 - 25)) / 100)))
                           [[100, 100, 100], [100, 200, 100], [100, 100, 100]],
             var_image = [[100, 100, 100], [100, 200, 100], [100, 100, 100]],
             obs_calibration = 10 powr (0.4 * (27 - 25)) / 100,
             obs_zpt = 27, obs_bandpass = ''F'', obs_exptime = Quantity 100 Second,
             mag_error = None \<rparr>, ())"
  by (simp add: finish_def noise_def poisson_def calibration_def getitem_def plm
        imager_F_def quiet_platform_def)

lemma run_art_smooth_returns: "fst run_art_smooth = Inr (projr (fst run_art_smooth))"
proof -
  have f: "''F'' \<in> set (filters imager_F)" by (simp add: imager_F_def)
  have c: "source_counts imager_F smooth_star ''F'' (check_units (Bare 100) Second) None 27 None
             None None Wrap
           = (Inr ([[100, 100, 100], [100, 200, 100], [100, 100, 100]], [100]),
              smooth_star \<lparr> smooth_model := Model (set_attr flat_profile ''amplitude'' 100) \<rparr>)"
    using smooth_source_counts by simp
  have s: "sky_step imager_F
             (pixel_scale (smooth_star \<lparr> smooth_model := Model (set_attr flat_profile ''amplitude'' 100) \<rparr>))
             ''F'' (check_units (Bare 100) Second) None
             [[100, 100, 100], [100, 200, 100], [100, 100, 100]] [100]
           = Inr ([[100, 100, 100], [100, 200, 100], [100, 100, 100]], 0, None)"
    by (simp add: sky_step_none clip_negative_def)
  show ?thesis
    unfolding run_art_smooth_def observe_spine [OF f c s] using finish_smooth by simp
qed

text \<open>
  C7, as stated, fails: a source with a smooth model whose amplitude is 7 comes back
  from the ideal pipeline with the amplitude 1, the value \<^verbatim>\<open>setattr\<close> has written.
\<close>

theorem source_amplitude_counterexample:
  "model_attr (SourceObject smooth_star) ''amplitude'' = Some 7
   \<and> model_attr (snd run_ideal_smooth) ''amplitude'' = Some 1"
  by (simp add: run_ideal_smooth_def ideal_observe_def check_source_def smooth_star_def one_star_def
        star_flux ideal_inject_smooth_model_def set_attr_def apply_seeing_def model_attr_def
        flat_profile_def Let_def)

text \<open>
  C7, amended. Both pipelines hand back an object that is not a source as it is, and a
  source without a smooth model (the attribute is missing or \<^verbatim>\<open>None\<close>) unchanged. A source
  with a smooth model comes back as it was, or with exactly one change: the attribute
  of the model that \<^verbatim>\<open>mag_to_image_amplitude\<close> names is set to the computed amplitude (in
  image units for the ideal pipeline, in counts per pixel for the artificial one). This
  holds whether \<^verbatim>\<open>observe\<close> returns or raises; when it returns, the attribute has been
  set.
\<close>

theorem observe_sets_only_amplitude:
  "snd (ideal_observe OtherObject bandpass psf zpt msk bnd) = OtherObject
   \<and> fst (snd (observe P self OtherObject bandpass e sky_sb psf zpt msk bkg ori bnd)) = OtherObject
   \<and> (snd (ideal_observe (SourceObject src) bandpass psf zpt msk bnd) = SourceObject src
       \<or> (\<exists>src'. snd (ideal_observe (SourceObject src) bandpass psf zpt msk bnd) = SourceObject src'
              \<and> ideal_amplitude_set bandpass zpt src src'))
   \<and> (fst (snd (observe P self (SourceObject src) bandpass e sky_sb psf zpt msk bkg ori bnd))
         = SourceObject src
       \<or> (\<exists>src'. fst (snd (observe P self (SourceObject src) bandpass e sky_sb psf zpt msk bkg ori bnd))
                = SourceObject src'
              \<and> art_amplitude_set self bandpass (check_units e Second) zpt src src'))
   \<and> (smooth_model src = NoAttr \<or> smooth_model src = IsNone \<longrightarrow>
        snd (ideal_observe (SourceObject src) bandpass psf zpt msk bnd) = SourceObject src
        \<and> fst (snd (observe P self (SourceObject src) bandpass e sky_sb psf zpt msk bkg ori bnd))
            = SourceObject src)
   \<and> (fst (ideal_observe (SourceObject src) bandpass psf zpt msk bnd) = Inr iobs
        \<and> smooth_model src = Model m \<longrightarrow>
        (\<exists>src'. snd (ideal_observe (SourceObject src) bandpass psf zpt msk bnd) = SourceObject src'
              \<and> ideal_amplitude_set bandpass zpt src src'))
   \<and> (fst (observe P self (SourceObject src) bandpass e sky_sb psf zpt msk bkg ori bnd) = Inr obs
        \<and> smooth_model src = Model m \<longrightarrow>
        (\<exists>src'. fst (snd (observe P self (SourceObject src) bandpass e sky_sb psf zpt msk bkg ori bnd))
                = SourceObject src'
              \<and> art_amplitude_set self bandpass (check_units e Second) zpt src src'))"
proof (intro conjI impI)
  show "snd (ideal_observe OtherObject bandpass psf zpt msk bnd) = OtherObject"
    by (simp add: ideal_observe_def check_source_def)
  show "fst (snd (observe P self OtherObject bandpass e sky_sb psf zpt msk bkg ori bnd)) = OtherObject"
    by (simp add: observe_def check_source_def split: sum.splits)
  show "snd (ideal_observe (SourceObject src) bandpass psf zpt msk bnd) = SourceObject src
       \<or> (\<exists>src'. snd (ideal_observe (SourceObject src) bandpass psf zpt msk bnd) = SourceObject src'
              \<and> ideal_amplitude_set bandpass zpt src src')"
    by (rule ideal_observe_frame)
  show "fst (snd (observe P self (SourceObject src) bandpass e sky_sb psf zpt msk bkg ori bnd))
         = SourceObject src
       \<or> (\<exists>src'. fst (snd (observe P self (SourceObject src) bandpass e sky_sb psf zpt msk bkg ori bnd))
                = SourceObject src'
              \<and> art_amplitude_set self bandpass (check_units e Second) zpt src src')"
    by (rule observe_frame)
next
  assume p: "smooth_model src = NoAttr \<or> smooth_model src = IsNone"
  show "snd (ideal_observe (SourceObject src) bandpass psf zpt msk bnd) = SourceObject src"
    using ideal_observe_frame [of src bandpass psf zpt msk bnd] p
    by (auto simp: ideal_amplitude_set_def)
  show "fst (snd (observe P self (SourceObject src) bandpass e sky_sb psf zpt msk bkg ori bnd))
            = SourceObject src"
    using observe_frame [of P self src bandpass e sky_sb psf zpt msk bkg ori bnd] p
    by (auto simp: art_amplitude_set_def)
next
  assume "fst (ideal_observe (SourceObject src) bandpass psf zpt msk bnd) = Inr iobs
          \<and> smooth_model src = Model m"
  then show "\<exists>src'. snd (ideal_observe (SourceObject src) bandpass psf zpt msk bnd) = SourceObject src'
              \<and> ideal_amplitude_set bandpass zpt src src'"
    using ideal_observe_sets by blast
next
  assume "fst (observe P self (SourceObject src) bandpass e sky_sb psf zpt msk bkg ori bnd) = Inr obs
          \<and> smooth_model src = Model m"
  then show "\<exists>src'. fst (snd (observe P self (SourceObject src) bandpass e sky_sb psf zpt msk bkg ori bnd))
                = SourceObject src'
              \<and> art_amplitude_set self bandpass (check_units e Second) zpt src src'"
    using observe_sets by blast
qed

theorem observe_sets_only_amplitude_witness:
  "(smooth_model one_star = NoAttr \<or> smooth_model one_star = IsNone)
   \<and> snd (ideal_observe (SourceObject one_star) ''F'' None 27 None Wrap) = SourceObject one_star
   \<and> fst (snd run_no_sky) = SourceObject one_star
   \<and> fst run_ideal_smooth = Inr (projr (fst run_ideal_smooth))
   \<and> fst run_art_smooth = Inr (projr (fst run_art_smooth))
   \<and> smooth_model smooth_star = Model flat_profile
   \<and> (\<exists>src'. snd run_ideal_smooth = SourceObject src'
          \<and> ideal_amplitude_set ''F'' 25 smooth_star src')
   \<and> (\<exists>src'. fst (snd run_art_smooth) = SourceObject src'
          \<and> art_amplitude_set imager_F ''F'' (check_units (Bare 100) Second) 27 smooth_star src')"
proof -
  have p: "smooth_model one_star = NoAttr \<or> smooth_model one_star = IsNone"
    by (simp add: one_star_def)
  have m: "smooth_model smooth_star = Model flat_profile" by (simp add: smooth_star_def)
  have i: "fst (ideal_observe (SourceObject smooth_star) ''F'' None 25 None Wrap)
           = Inr (projr (fst run_ideal_smooth))"
    using run_ideal_smooth_returns by (simp add: run_ideal_smooth_def)
  have a: "fst (observe quiet_platform imager_F (SourceObject smooth_star) ''F'' (Bare 100)
                  None None 27 None None None Wrap) = Inr (projr (fst run_art_smooth))"
    using run_art_smooth_returns by (simp add: run_art_smooth_def)
  have u: "snd (ideal_observe (SourceObject one_star) ''F'' None 27 None Wrap) = SourceObject one_star
           \<and> fst (snd (observe quiet_platform imager_F (SourceObject one_star) ''F'' (Bare 100)
                          None None 27 None (Some dark_corner) None Wrap)) = SourceObject one_star"
    using observe_sets_only_amplitude [where src = one_star and bandpass = "''F''" and psf = None
            and zpt = 27 and msk = None and bnd = Wrap and P = quiet_platform and self = imager_F
            and e = "Bare 100" and sky_sb = None and bkg = "Some dark_corner" and ori = None] p
    by blast
  have v: "\<exists>src'. snd (ideal_observe (SourceObject smooth_star) ''F'' None 25 None Wrap)
                   = SourceObject src'
                 \<and> ideal_amplitude_set ''F'' 25 smooth_star src'"
    using observe_sets_only_amplitude [where src = smooth_star and bandpass = "''F''" and psf = None
            and zpt = 25 and msk = None and bnd = Wrap and iobs = "projr (fst run_ideal_smooth)"
            and m = flat_profile] i m
    by blast
  have w: "\<exists>src'. fst (snd (observe quiet_platform imager_F (SourceObject smooth_star) ''F''
                               (Bare 100) None None 27 None None None Wrap)) = SourceObject src'
                 \<and> art_amplitude_set imager_F ''F'' (check_units (Bare 100) Second) 27 smooth_star src'"
    using observe_sets_only_amplitude [where src = smooth_star and bandpass = "''F''" and psf = None
            and zpt = 27 and msk = None and bnd = Wrap and P = quiet_platform and self = imager_F
            and e = "Bare 100" and sky_sb = None and bkg = None and ori = None
            and obs = "projr (fst run_art_smooth)" and m = flat_profile] a m
    by blast
  from p m u v w run_ideal_smooth_returns run_art_smooth_returns show ?thesis
    unfolding run_no_sky_def run_ideal_smooth_def run_art_smooth_def by blast
qed

subsection \<open>The shape of the images\<close>

lemma wide_flux:
  "inject_stars [1] [1] [w] (3, 5) None
   = Inr [[0, 0, 0], [0, w, 0], [0, 0, 0], [0, 0, 0], [0, 0, 0]]"
  by (simp add: raster_defs upt_3 upt_5)

lemma run_wide_value:
  "fst run_wide = Inr \<lparr> ideal_image = [[0, 0, 0], [0, 1, 0], [0, 0, 0], [0, 0, 0], [0, 0, 0]],
                         ideal_zpt = 25, ideal_bandpass = ''F'' \<rparr>"
  by (simp add: run_wide_def ideal_observe_def check_source_def wide_star_def one_star_def
        wide_flux ideal_inject_smooth_model_def apply_seeing_def Let_def)

lemma ideal_observe_stages:
  assumes "fst (ideal_observe (SourceObject src) bandpass psf zpt msk bnd) = Inr iobs"
  shows "\<exists>flux img0 img1 src'.
           inject_stars (star_x src) (star_y src) flux (xy_dim src) msk = Inr img0
           \<and> ideal_inject_smooth_model img0 src bandpass zpt = (Inr img1, src')
           \<and> apply_seeing img1 psf bnd = Inr (ideal_image iobs)"
proof -
  from assms obtain ms where ms: "map_of (mags src) bandpass = Some ms"
    by (cases "map_of (mags src) bandpass") (simp_all add: ideal_observe_def check_source_def)
  let ?flux = "map (\<lambda>m. 10 powr (0.4 * (zpt - m))) ms"
  from assms ms obtain img0 where
    a: "inject_stars (star_x src) (star_y src) ?flux (xy_dim src) msk = Inr img0"
    by (cases "inject_stars (star_x src) (star_y src) ?flux (xy_dim src) msk")
       (simp_all add: ideal_observe_def check_source_def)
  obtain r src' where b: "ideal_inject_smooth_model img0 src bandpass zpt = (r, src')"
    by (cases "ideal_inject_smooth_model img0 src bandpass zpt")
  from assms ms a b obtain img1 where r: "r = Inr img1"
    by (cases r) (simp_all add: ideal_observe_def check_source_def)
  from assms ms a b r obtain img2 where c: "apply_seeing img1 psf bnd = Inr img2"
    by (cases "apply_seeing img1 psf bnd") (simp_all add: ideal_observe_def check_source_def)
  from assms ms a b r c have "ideal_image iobs = img2"
    by (auto simp: ideal_observe_def check_source_def)
  with a b r c show ?thesis by blast
qed

text \<open>
  C9, as stated, fails for a grid that is not square: with \<^verbatim>\<open>xy_dim = (3, 5)\<close> the ideal
  image has 5 rows and 3 columns.
\<close>

theorem shape_counterexample:
  "\<not> isl (fst run_wide) \<and> xy_dim wide_star = (3, 5)
   \<and> shape (ideal_image (projr (fst run_wide))) = (5, 3)"
  by (simp add: run_wide_value wide_star_def shape_def ncols_def)

text \<open>
  C9, amended. When \<^verbatim>\<open>observe\<close> returns, the image of the ideal observation, and the
  source counts, raw counts, calibrated image and variance image of the artificial
  observation, have \<^verbatim>\<open>xy_dim[1]\<close> rows and \<^verbatim>\<open>xy_dim[0]\<close> columns. (Each step in between
  keeps the shape: see the lemmas on shapes above.)
\<close>

theorem pipeline_shapes:
  "(fst (ideal_observe (SourceObject src) bandpass psf zpt msk bnd) = Inr iobs \<longrightarrow>
      shape (ideal_image iobs) = (nat (snd (xy_dim src)), nat (fst (xy_dim src))))
   \<and> (fst (observe P self (SourceObject src) bandpass e sky_sb psf zpt msk bkg ori bnd) = Inr obs \<longrightarrow>
      shape (src_counts obs) = (nat (snd (xy_dim src)), nat (fst (xy_dim src)))
      \<and> shape (raw_counts obs) = (nat (snd (xy_dim src)), nat (fst (xy_dim src)))
      \<and> shape (obs_image obs) = (nat (snd (xy_dim src)), nat (fst (xy_dim src)))
      \<and> shape (var_image obs) = (nat (snd (xy_dim src)), nat (fst (xy_dim src))))"
proof (intro conjI impI)
  assume "fst (ideal_observe (SourceObject src) bandpass psf zpt msk bnd) = Inr iobs"
  from ideal_observe_stages [OF this] obtain flux img0 img1 src' where
    a: "inject_stars (star_x src) (star_y src) flux (xy_dim src) msk = Inr img0"
    and b: "ideal_inject_smooth_model img0 src bandpass zpt = (Inr img1, src')"
    and c: "apply_seeing img1 psf bnd = Inr (ideal_image iobs)"
    by blast
  from a have "shape img0 = (nat (snd (xy_dim src)), nat (fst (xy_dim src)))"
    using shape_inject_stars [of "star_x src" "star_y src" flux "fst (xy_dim src)" "snd (xy_dim src)"]
    by simp
  with shape_ideal_inject_smooth_model [OF b] shape_apply_seeing [OF c]
  show "shape (ideal_image iobs) = (nat (snd (xy_dim src)), nat (fst (xy_dim src)))" by simp
next
  assume r: "fst (observe P self (SourceObject src) bandpass e sky_sb psf zpt msk bkg ori bnd) = Inr obs"
  from observe_finish [OF r] obtain img counts src' c s er g where
    sc: "source_counts self src bandpass (check_units e Second) psf zpt msk bkg ori bnd
         = (Inr (img, counts), src')"
    and ss: "sky_step self (pixel_scale src') bandpass (check_units e Second) sky_sb img counts
         = Inr (c, s, er)"
    and f: "finish P self bandpass (check_units e Second) zpt c s er = (Inr obs, g)"
    by auto
  have d: "shape c = (nat (snd (xy_dim src)), nat (fst (xy_dim src)))"
    using shape_source_counts [OF sc] shape_sky_step [OF ss] by simp
  show "shape (src_counts obs) = (nat (snd (xy_dim src)), nat (fst (xy_dim src)))"
    using finish_shapes(4) [OF f] d by simp
  show "shape (raw_counts obs) = (nat (snd (xy_dim src)), nat (fst (xy_dim src)))"
    using finish_shapes(1) [OF f] d by simp
  show "shape (obs_image obs) = (nat (snd (xy_dim src)), nat (fst (xy_dim src)))"
    using finish_shapes(3) [OF f] d by simp
  show "shape (var_image obs) = (nat (snd (xy_dim src)), nat (fst (xy_dim src)))"
    using finish_shapes(2) [OF f] d by simp
qed

theorem pipeline_shapes_witness:
  "fst run_wide = Inr (projr (fst run_wide))
   \<and> fst run_sky = Inr (projr (fst run_sky))
   \<and> xy_dim wide_star = (3, 5) \<and> xy_dim one_star = (3, 3)
   \<and> shape (ideal_image (projr (fst run_wide))) = (5, 3)
   \<and> shape (src_counts (projr (fst run_sky))) = (3, 3)
   \<and> shape (raw_counts (projr (fst run_sky))) = (3, 3)
   \<and> shape (obs_image (projr (fst run_sky))) = (3, 3)
   \<and> shape (var_image (projr (fst run_sky))) = (3, 3)"
proof -
  have v: "fst run_wide = Inr (projr (fst run_wide))" "fst run_sky = Inr (projr (fst run_sky))"
    by (simp_all add: run_wide_value run_sky_value)
  have d: "xy_dim wide_star = (3, 5)" "xy_dim one_star = (3, 3)"
    by (simp_all add: wide_star_def one_star_def)
  show ?thesis
    using pipeline_shapes [where src = wide_star and bandpass = "''F''" and psf = None
            and zpt = 25 and msk = None and bnd = Wrap and iobs = "projr (fst run_wide)"
            and P = quiet_platform and self = imager_F and e = "Bare 100" and sky_sb = "Some 25"
            and bkg = "Some dark_corner" and ori = None and obs = "projr (fst run_sky)"]
          pipeline_shapes [where src = one_star and bandpass = "''F''" and psf = None
            and zpt = 27 and msk = None and bnd = Wrap and iobs = "projr (fst run_wide)"
            and P = quiet_platform and self = imager_F and e = "Bare 100" and sky_sb = "Some 25"
            and bkg = "Some dark_corner" and ori = None and obs = "projr (fst run_sky)"]
          v d
    by (simp add: run_wide_def [symmetric] run_sky_def [symmetric])
qed

end
